theory Spec2Isabelle
  imports Main "HOL-Library.Sublist"
begin

section \<open>CrossBow: the security agent system and its command-line shell\<close>

text \<open>
  A shallow embedding of \<^verbatim>\<open>src/Agent.py\<close> (class \<^verbatim>\<open>SecurityAgentSystem\<close>) and of the
  toggle handlers of \<^verbatim>\<open>src/crossbow_cli.py\<close>. The objects of the agent library are data
  (a constructor call is the value built from its arguments); what the library and the
  platform decide at run time is read from an environment record, so that every
  \<^verbatim>\<open>try\<close>/\<^verbatim>\<open>except\<close> of the source is a case distinction of the model.
\<close>

subsection \<open>Exceptions and library objects\<close>

text \<open>
  Python exceptions. \<^verbatim>\<open>ImportError\<close> is kept apart because \<^verbatim>\<open>_get_model\<close> catches it
  alone, and \<^verbatim>\<open>KeyError\<close> (with the key) because a subscript raises it; every other
  exception is an \<^verbatim>\<open>Exception\<close> with its message.
\<close>

datatype exn = ImportError | KeyError string | Exception string

text \<open>The model adapters of \<^verbatim>\<open>agno.models\<close>: each carries the identifier it was built with.\<close>

datatype model_adapter =
    Claude string
  | OpenAIChat string
  | Gemini string
  | LiteLLM string string

text \<open>
  The capabilities (tools) an agent can be given: the entries of \<^verbatim>\<open>SECURITY_TOOLS\<close>, the two
  base tools, the combined bridge \<^verbatim>\<open>MultiMCPTools(commands)\<close> and one
  \<^verbatim>\<open>MCPTools(url=..., transport=...)\<close> per remote server. \<^verbatim>\<open>FileTools\<close> carries
  \<^verbatim>\<open>base_dir\<close>, \<^verbatim>\<open>enable_save_file\<close> and \<^verbatim>\<open>enable_delete_file\<close>.
\<close>

datatype capability =
    SecurityTool string
  | DuckDuckGoTools
  | FileTools string bool bool
  | MultiMCPTools "string list"
  | MCPTools string string

text \<open>\<^verbatim>\<open>SqliteDb(db_file=...)\<close>.\<close>

datatype db = SqliteDb string

text \<open>
  What the surroundings decide, read by the model where the source calls out:
  \<^item> \<^verbatim>\<open>str_lower\<close> is Python's \<^verbatim>\<open>str.lower\<close>;
  \<^item> \<^verbatim>\<open>litellm_importable\<close> says whether \<^verbatim>\<open>from agno.models.litellm import LiteLLM\<close>
    succeeds;
  \<^item> \<^verbatim>\<open>SECURITY_TOOLS\<close> is the list imported from \<^verbatim>\<open>src.tools\<close>, and \<^verbatim>\<open>CROSSBOW_DIR\<close> the
    module constant \<^verbatim>\<open>Path.home() / ".crossbow"\<close>;
  \<^item> \<^verbatim>\<open>MultiMCPTools_raises\<close>, \<^verbatim>\<open>MCPTools_raises\<close> and \<^verbatim>\<open>SqliteDb_raises\<close> give, for the
    arguments of a constructor call, the exception it raises (\<open>None\<close> when it returns);
  \<^item> \<^verbatim>\<open>uuid4 k\<close> is the text of the \<open>k\<close>-th value \<^verbatim>\<open>uuid.uuid4()\<close> hands out;
  \<^item> \<^verbatim>\<open>print_response_raises\<close> gives the exception a task raises inside the team, if any.
\<close>

record env =
  str_lower :: "string \<Rightarrow> string"
  litellm_importable :: bool
  SECURITY_TOOLS :: "capability list"
  CROSSBOW_DIR :: string
  MultiMCPTools_raises :: "string list \<Rightarrow> exn option"
  MCPTools_raises :: "string \<Rightarrow> string \<Rightarrow> exn option"
  SqliteDb_raises :: "string \<Rightarrow> exn option"
  uuid4 :: "nat \<Rightarrow> string"
  print_response_raises :: "string \<Rightarrow> exn option"

subsection \<open>Strings\<close>

text \<open>Python's \<^verbatim>\<open>sub in s\<close> on strings: \<^verbatim>\<open>sub\<close> occurs in \<^verbatim>\<open>s\<close> as a contiguous block.\<close>

fun str_contains :: "string \<Rightarrow> string \<Rightarrow> bool" where
  "str_contains sub [] = (sub = [])"
| "str_contains sub (c # cs) = (prefix sub (c # cs) \<or> str_contains sub cs)"

text \<open>Lower-casing of the ASCII letters, for running the model on concrete identifiers.\<close>

definition ascii_lower_char :: "char \<Rightarrow> char" where
  "ascii_lower_char c =
     (case map_of (zip ''ABCDEFGHIJKLMNOPQRSTUVWXYZ'' ''abcdefghijklmnopqrstuvwxyz'') c of
        None \<Rightarrow> c
      | Some d \<Rightarrow> d)"

definition ascii_lower :: "string \<Rightarrow> string" where
  "ascii_lower s = map ascii_lower_char s"

subsection \<open>The model resolver\<close>

text \<open>The import inside \<^verbatim>\<open>_get_model\<close>: it raises \<^verbatim>\<open>ImportError\<close> when the package is absent.\<close>

definition import_LiteLLM :: "env \<Rightarrow> exn + unit" where
  "import_LiteLLM e = (if litellm_importable e then Inr () else Inl ImportError)"

text \<open>
  \<^verbatim>\<open>SecurityAgentSystem._get_model\<close>. The \<^verbatim>\<open>except ImportError\<close> handler catches that
  exception only; another one would leave the function.
\<close>

definition get_model :: "env \<Rightarrow> string \<Rightarrow> exn + model_adapter" where
  "get_model e model_id =
     (if str_contains ''claude'' (str_lower e model_id) then Inr (Claude model_id)
      else if str_contains ''gpt'' (str_lower e model_id)
            \<or> str_contains ''o1'' (str_lower e model_id)
            \<or> str_contains ''o3'' (str_lower e model_id) then Inr (OpenAIChat model_id)
      else if str_contains ''gemini'' (str_lower e model_id) then Inr (Gemini model_id)
      else (case import_LiteLLM e of
              Inr _ \<Rightarrow> Inr (LiteLLM model_id ''LiteLLM'')
            | Inl ImportError \<Rightarrow> Inr (OpenAIChat model_id)
            | Inl ex \<Rightarrow> Inl ex))"

subsection \<open>The capability registry\<close>

text \<open>
  An entry of \<^verbatim>\<open>mcp_servers\<close> is a dictionary with text keys (\<^verbatim>\<open>'name'\<close>, \<^verbatim>\<open>'command'\<close>,
  \<^verbatim>\<open>'url'\<close>, \<^verbatim>\<open>'transport'\<close>) and text values.
\<close>

type_synonym server = "string \<rightharpoonup> string"

text \<open>\<^verbatim>\<open>d.get(key, default)\<close>.\<close>

definition dict_get :: "server \<Rightarrow> string \<Rightarrow> string \<Rightarrow> string" where
  "dict_get d k dflt = (case d k of None \<Rightarrow> dflt | Some v \<Rightarrow> v)"

text \<open>
  The two warnings \<^verbatim>\<open>_initialize_tools\<close> prints: for one remote server (its name and the
  exception), and for the external tools as a whole (the exception).
\<close>

datatype printed =
    Warning_MCP_server string exn
  | Warning_MCP_tools exn

text \<open>
  The part of the world the system writes to: what was printed, how many identifiers
  \<^verbatim>\<open>uuid.uuid4()\<close> has handed out, and the calls of \<^verbatim>\<open>print_response\<close> made on a team
  (task, \<^verbatim>\<open>stream\<close>, \<^verbatim>\<open>session_id\<close>).
\<close>

record world =
  stdout :: "printed list"
  uuid_draws :: nat
  team_calls :: "(string \<times> bool \<times> string) list"

definition py_print :: "printed \<Rightarrow> world \<Rightarrow> world" where
  "py_print line w = w\<lparr>stdout := stdout w @ [line]\<rparr>"

text \<open>
  The first loop of \<^verbatim>\<open>_initialize_tools\<close>: a server with a \<^verbatim>\<open>'command'\<close> key gives its
  command to \<^verbatim>\<open>commands\<close>; otherwise one with a \<^verbatim>\<open>'url'\<close> key joins \<^verbatim>\<open>url_servers\<close>; one with
  neither is passed over.
\<close>

fun split_servers :: "server list \<Rightarrow> string list \<Rightarrow> server list \<Rightarrow> string list \<times> server list" where
  "split_servers [] commands url_servers = (commands, url_servers)"
| "split_servers (server # rest) commands url_servers =
     (case server ''command'' of
        Some c \<Rightarrow> split_servers rest (commands @ [c]) url_servers
      | None \<Rightarrow>
          (case server ''url'' of
             Some _ \<Rightarrow> split_servers rest commands (url_servers @ [server])
           | None \<Rightarrow> split_servers rest commands url_servers))"

text \<open>
  The body of the inner \<^verbatim>\<open>try\<close>: \<^verbatim>\<open>url_server['url']\<close> raises \<^verbatim>\<open>KeyError\<close> on a missing key,
  and the constructor may raise.
\<close>

definition new_MCPTools :: "env \<Rightarrow> server \<Rightarrow> exn + capability" where
  "new_MCPTools e url_server =
     (case url_server ''url'' of
        None \<Rightarrow> Inl (KeyError ''url'')
      | Some u \<Rightarrow>
          (case MCPTools_raises e u (dict_get url_server ''transport'' ''streamable-http'') of
             Some ex \<Rightarrow> Inl ex
           | None \<Rightarrow> Inr (MCPTools u (dict_get url_server ''transport'' ''streamable-http''))))"

text \<open>
  The second loop: each remote server in its own \<^verbatim>\<open>try\<close>; an exception prints the warning
  and the loop goes on with the next server.
\<close>

fun add_url_servers :: "env \<Rightarrow> server list \<Rightarrow> capability list \<Rightarrow> world \<Rightarrow> capability list \<times> world" where
  "add_url_servers e [] tools w = (tools, w)"
| "add_url_servers e (url_server # rest) tools w =
     (case new_MCPTools e url_server of
        Inr mcp_tool \<Rightarrow> add_url_servers e rest (tools @ [mcp_tool]) w
      | Inl ex \<Rightarrow>
          add_url_servers e rest tools
            (py_print (Warning_MCP_server (dict_get url_server ''name'' ''unknown'') ex) w))"

text \<open>
  The body of the outer \<^verbatim>\<open>try\<close>, from the tools built so far: the result is the exception
  that leaves it, or the tools, \<^verbatim>\<open>self.mcp_tools\<close> and the world at its end.
  \<^verbatim>\<open>MultiMCPTools(commands)\<close> is the only call outside the inner \<^verbatim>\<open>try\<close> that may raise, and
  it comes before anything is appended or printed.
\<close>

definition attach_mcp ::
  "env \<Rightarrow> server list \<Rightarrow> capability list \<Rightarrow> world \<Rightarrow> exn + (capability list \<times> capability option \<times> world)" where
  "attach_mcp e mcp_servers tools w =
     (case split_servers mcp_servers [] [] of
        (commands, url_servers) \<Rightarrow>
          if commands \<noteq> [] then
            (case MultiMCPTools_raises e commands of
               Some ex \<Rightarrow> Inl ex
             | None \<Rightarrow>
                 (case add_url_servers e url_servers (tools @ [MultiMCPTools commands]) w of
                    (tools', w') \<Rightarrow> Inr (tools', Some (MultiMCPTools commands), w')))
          else
            (case add_url_servers e url_servers tools w of
               (tools', w') \<Rightarrow> Inr (tools', None, w')))"

text \<open>
  \<^verbatim>\<open>SecurityAgentSystem._initialize_tools\<close>, from \<^verbatim>\<open>self.base_tools\<close>, \<^verbatim>\<open>self.use_mcp\<close> and
  \<^verbatim>\<open>self.mcp_servers\<close>: the returned list, \<^verbatim>\<open>self.mcp_tools\<close> afterwards, and the world.
\<close>

definition initialize_tools ::
  "env \<Rightarrow> capability list \<Rightarrow> bool \<Rightarrow> server list \<Rightarrow> world \<Rightarrow> capability list \<times> capability option \<times> world" where
  "initialize_tools e base_tools use_mcp mcp_servers w =
     (if use_mcp \<and> mcp_servers \<noteq> [] then
        (case attach_mcp e mcp_servers (SECURITY_TOOLS e @ base_tools) w of
           Inr r \<Rightarrow> r
         | Inl ex \<Rightarrow> (SECURITY_TOOLS e @ base_tools, None, py_print (Warning_MCP_tools ex) w))
      else (SECURITY_TOOLS e @ base_tools, None, w))"

subsection \<open>Specialists and the team\<close>

text \<open>The instruction texts imported from \<^verbatim>\<open>src.prompts\<close>, by the names the source uses.\<close>

datatype prompt =
    ANDROID_SAST_AGENT_PROMPT
  | BLUETEAM_AGENT_PROMPT
  | BUG_BOUNTY_AGENT_PROMPT
  | CODE_AGENT
  | DFIR_AGENT_PROMPT
  | EMAIL_SPOOF_AGENT_PROMPT
  | MEMPORY_ANALYSIS_PROMPT
  | NETWORK_ANALYSER_PROMPT
  | RED_TEAM_AGENT_PROMPT
  | REPlAY_ATTACK_AGENT_PROMPT
  | REPORTING_AGENT_PROMPT
  | TRIAGER_AGENT_PROMPT
  | REVERSE_ENGINEERING_AGENT_PROMPT
  | SUBGHZ_AGENT_PROMPT
  | WIFI_SECURITY_AGENT_PROMPT
  | SOURCE_CODE_ANALYZER_AGENT_PROMPT
  | THOUGHT_ROUTER_MANAGER_AGENT_PROMPT

text \<open>
  The dictionary \<^verbatim>\<open>agent_kwargs\<close>: \<^verbatim>\<open>"model"\<close> and \<^verbatim>\<open>"tools"\<close> are always there, the other
  three keys only when they were set (\<open>None\<close> is an absent key).
\<close>

record agent_kwargs =
  kw_model :: model_adapter
  kw_tools :: "capability list"
  kw_db :: "db option"
  kw_add_history_to_context :: "bool option"
  kw_enable_user_memories :: "bool option"

text \<open>An \<^verbatim>\<open>Agent\<close>: the keyword arguments it was built with.\<close>

record agent =
  agent_name :: string
  agent_role :: string
  agent_instructions :: "prompt list"
  agent_model :: model_adapter
  agent_tools :: "capability list"
  agent_db :: "db option"
  agent_add_history_to_context :: "bool option"
  agent_enable_user_memories :: "bool option"

text \<open>\<^verbatim>\<open>Agent(name=..., role=..., instructions=..., **agent_kwargs)\<close>.\<close>

definition Agent :: "string \<Rightarrow> string \<Rightarrow> prompt list \<Rightarrow> agent_kwargs \<Rightarrow> agent" where
  "Agent n r ins kw =
     \<lparr>agent_name = n, agent_role = r, agent_instructions = ins,
      agent_model = kw_model kw, agent_tools = kw_tools kw, agent_db = kw_db kw,
      agent_add_history_to_context = kw_add_history_to_context kw,
      agent_enable_user_memories = kw_enable_user_memories kw\<rparr>"

text \<open>
  The head of \<^verbatim>\<open>_create_all_agents\<close>: the dictionary after the two \<^verbatim>\<open>if\<close> blocks. A store
  object is true in a condition, so \<^verbatim>\<open>if self.storage_db\<close> asks whether it was created.
\<close>

definition make_agent_kwargs ::
  "model_adapter \<Rightarrow> capability list \<Rightarrow> db option \<Rightarrow> db option \<Rightarrow> agent_kwargs" where
  "make_agent_kwargs model all_tools storage_db memory_db =
     (let kw0 = \<lparr>kw_model = model, kw_tools = all_tools, kw_db = None,
                 kw_add_history_to_context = None, kw_enable_user_memories = None\<rparr>;
          kw1 = (case storage_db of
                   Some d \<Rightarrow> kw0\<lparr>kw_db := Some d, kw_add_history_to_context := Some True\<rparr>
                 | None \<Rightarrow> kw0);
          kw2 = (case memory_db of
                   Some d \<Rightarrow> kw1\<lparr>kw_db := Some d, kw_enable_user_memories := Some True,
                                 kw_add_history_to_context := Some True\<rparr>
                 | None \<Rightarrow> kw1)
      in kw2)"

text \<open>The sixteen attributes \<^verbatim>\<open>_create_all_agents\<close> sets on the system, in its order.\<close>

record specialists =
  android_agent :: agent
  blue_team_agent :: agent
  bug_bounty_agent :: agent
  coding_agent :: agent
  dfir_agent :: agent
  email_security_agent :: agent
  memory_agent :: agent
  network_agent :: agent
  red_team_agent :: agent
  replay_attack_agent :: agent
  reporting_agent :: agent
  triage_agent :: agent
  reverse_engineering_agent :: agent
  subghz_agent :: agent
  wifi_agent :: agent
  source_code_analyzer_agent :: agent

text \<open>\<^verbatim>\<open>SecurityAgentSystem._create_all_agents\<close>.\<close>

definition create_all_agents ::
  "model_adapter \<Rightarrow> capability list \<Rightarrow> db option \<Rightarrow> db option \<Rightarrow> specialists" where
  "create_all_agents model all_tools storage_db memory_db =
     (let kw = make_agent_kwargs model all_tools storage_db memory_db in
      \<lparr>android_agent =
         Agent ''Android SAST Specialist'' ''Android Security Testing Expert''
           [ANDROID_SAST_AGENT_PROMPT] kw,
       blue_team_agent =
         Agent ''Blue Team Defender'' ''Defense and Security Monitoring''
           [BLUETEAM_AGENT_PROMPT] kw,
       bug_bounty_agent =
         Agent ''Bug Bounty Hunter'' ''Web Vulnerability Research''
           [BUG_BOUNTY_AGENT_PROMPT] kw,
       coding_agent =
         Agent ''Security Developer'' ''Security Tool Development''
           [CODE_AGENT] kw,
       dfir_agent =
         Agent ''DFIR Investigator'' ''Digital Forensics and Incident Response''
           [DFIR_AGENT_PROMPT] kw,
       email_security_agent =
         Agent ''Email Security Analyst'' ''Email Configuration Security''
           [EMAIL_SPOOF_AGENT_PROMPT] kw,
       memory_agent =
         Agent ''Memory Forensics Expert'' ''Runtime Memory Analysis''
           [MEMPORY_ANALYSIS_PROMPT] kw,
       network_agent =
         Agent ''Network Security Analyst'' ''Network Traffic Analysis''
           [NETWORK_ANALYSER_PROMPT] kw,
       red_team_agent =
         Agent ''Red Team Operator'' ''Offensive Security Operations''
           [RED_TEAM_AGENT_PROMPT] kw,
       replay_attack_agent =
         Agent ''Replay Attack Specialist'' ''Network Replay and Analysis''
           [REPlAY_ATTACK_AGENT_PROMPT] kw,
       reporting_agent =
         Agent ''Security Reporter'' ''Security Documentation''
           [REPORTING_AGENT_PROMPT] kw,
       triage_agent =
         Agent ''Vulnerability Validator'' ''Security Finding Verification''
           [TRIAGER_AGENT_PROMPT] kw,
       reverse_engineering_agent =
         Agent ''Reverse Engineer'' ''Binary Analysis and RE''
           [REVERSE_ENGINEERING_AGENT_PROMPT] kw,
       subghz_agent =
         Agent ''RF Security Expert'' ''Sub-GHz Radio Analysis''
           [SUBGHZ_AGENT_PROMPT] kw,
       wifi_agent =
         Agent ''WiFi Security Tester'' ''Wireless Network Security''
           [WIFI_SECURITY_AGENT_PROMPT] kw,
       source_code_analyzer_agent =
         Agent ''Source Code Analyzer'' ''SAST and Exploit Verification Specialist''
           [SOURCE_CODE_ANALYZER_AGENT_PROMPT] kw\<rparr>)"

text \<open>A \<^verbatim>\<open>Team\<close>: the keyword arguments of \<^verbatim>\<open>team_kwargs\<close>; the last two keys may be absent.\<close>

record team =
  team_name :: string
  team_model :: model_adapter
  team_respond_directly :: bool
  team_members :: "agent list"
  team_markdown :: bool
  team_instructions :: "prompt list"
  team_show_members_responses :: bool
  team_add_history_to_context :: bool
  team_db :: "db option"
  team_enable_user_memories :: "bool option"

text \<open>
  \<^verbatim>\<open>SecurityAgentSystem._create_security_team\<close>: it draws the session identifier, then
  builds the team. The result is \<^verbatim>\<open>self.session_id\<close>, \<^verbatim>\<open>self.security_team\<close> and the world.
\<close>

definition create_security_team ::
  "env \<Rightarrow> model_adapter \<Rightarrow> db option \<Rightarrow> specialists \<Rightarrow> world \<Rightarrow> string \<times> team \<times> world" where
  "create_security_team e model memory_db ags w =
     (let session_id = uuid4 e (uuid_draws w);
          w' = w\<lparr>uuid_draws := Suc (uuid_draws w)\<rparr>;
          team_kwargs =
            \<lparr>team_name = ''Security Assessment Team'',
             team_model = model,
             team_respond_directly = True,
             team_members =
               [android_agent ags, blue_team_agent ags, bug_bounty_agent ags, coding_agent ags,
                dfir_agent ags, email_security_agent ags, memory_agent ags, network_agent ags,
                red_team_agent ags, replay_attack_agent ags, reporting_agent ags,
                triage_agent ags, reverse_engineering_agent ags, subghz_agent ags,
                wifi_agent ags, source_code_analyzer_agent ags],
             team_markdown = True,
             team_instructions = [THOUGHT_ROUTER_MANAGER_AGENT_PROMPT],
             team_show_members_responses = True,
             team_add_history_to_context = True,
             team_db = None,
             team_enable_user_memories = None\<rparr>;
          team_kwargs' =
            (case memory_db of
               Some d \<Rightarrow> team_kwargs\<lparr>team_db := Some d, team_enable_user_memories := Some True\<rparr>
             | None \<Rightarrow> team_kwargs)
      in (session_id, team_kwargs', w'))"

subsection \<open>The system\<close>

text \<open>The attributes of a \<^verbatim>\<open>SecurityAgentSystem\<close> once \<^verbatim>\<open>__init__\<close> has returned.\<close>

record system =
  model_name :: string
  model :: model_adapter
  use_memory :: bool
  use_storage :: bool
  use_mcp :: bool
  mcp_servers :: "server list"
  mcp_tools :: "capability option"
  base_tools :: "capability list"
  all_tools :: "capability list"
  storage_db :: "db option"
  memory_db :: "db option"
  agents :: specialists
  session_id :: string
  security_team :: team

text \<open>\<^verbatim>\<open>SqliteDb(db_file=str(CROSSBOW_DIR / file))\<close>, with the separator of a POSIX path.\<close>

definition new_SqliteDb :: "env \<Rightarrow> string \<Rightarrow> exn + db" where
  "new_SqliteDb e file =
     (case SqliteDb_raises e (CROSSBOW_DIR e @ ''/'' @ file) of
        Some ex \<Rightarrow> Inl ex
      | None \<Rightarrow> Inr (SqliteDb (CROSSBOW_DIR e @ ''/'' @ file)))"

text \<open>A store that is opened only when its flag is set: \<open>None\<close> otherwise.\<close>

definition open_if :: "bool \<Rightarrow> exn + db \<Rightarrow> exn + db option" where
  "open_if flag r =
     (if flag then (case r of Inl ex \<Rightarrow> Inl ex | Inr d \<Rightarrow> Inr (Some d)) else Inr None)"

text \<open>
  \<^verbatim>\<open>SecurityAgentSystem.__init__\<close>, in the order of the source: the model, the tools, the
  storage store, the memory store, the agents, the team. The result is the exception that
  leaves the constructor or the system built, with the world as it is then. The arguments
  carry a prime where the attribute of the same name is a field of the record.
\<close>

definition init ::
  "env \<Rightarrow> string \<Rightarrow> bool \<Rightarrow> bool \<Rightarrow> bool \<Rightarrow> server list option \<Rightarrow> world \<Rightarrow> (exn + system) \<times> world" where
  "init e model_name' use_memory' use_storage' use_mcp' mcp_servers' w =
     (case get_model e model_name' of
        Inl ex \<Rightarrow> (Inl ex, w)
      | Inr model' \<Rightarrow>
          (let servers = (case mcp_servers' of None \<Rightarrow> [] | Some l \<Rightarrow> l);
               base = [DuckDuckGoTools, FileTools ''.'' True False]
           in case initialize_tools e base use_mcp' servers w of
                (tools, bridge, w1) \<Rightarrow>
                  (case open_if use_storage' (new_SqliteDb e ''agent_storage.db'') of
                     Inl ex \<Rightarrow> (Inl ex, w1)
                   | Inr storage \<Rightarrow>
                       (case open_if use_memory' (new_SqliteDb e ''crossbow_agents.db'') of
                          Inl ex \<Rightarrow> (Inl ex, w1)
                        | Inr memory \<Rightarrow>
                            (let ags = create_all_agents model' tools storage memory in
                             case create_security_team e model' memory ags w1 of
                               (sid, tm, w2) \<Rightarrow>
                                 (Inr \<lparr>model_name = model_name', model = model',
                                       use_memory = use_memory', use_storage = use_storage',
                                       use_mcp = use_mcp', mcp_servers = servers,
                                       mcp_tools = bridge, base_tools = base, all_tools = tools,
                                       storage_db = storage, memory_db = memory, agents = ags,
                                       session_id = sid, security_team = tm\<rparr>, w2))))))"

text \<open>
  \<^verbatim>\<open>SecurityAgentSystem.run_assessment\<close>: one call of \<^verbatim>\<open>print_response\<close> on the team, with
  the task, \<^verbatim>\<open>stream\<close> and the system's \<^verbatim>\<open>session_id\<close>; the call may raise.
\<close>

definition run_assessment :: "env \<Rightarrow> system \<Rightarrow> string \<Rightarrow> bool \<Rightarrow> world \<Rightarrow> exn option \<times> world" where
  "run_assessment e sys task stream w =
     (print_response_raises e task,
      w\<lparr>team_calls := team_calls w @ [(task, stream, session_id sys)]\<rparr>)"

text \<open>Tasks submitted one after the other to the same system.\<close>

fun run_assessments :: "env \<Rightarrow> system \<Rightarrow> (string \<times> bool) list \<Rightarrow> world \<Rightarrow> world" where
  "run_assessments e sys [] w = w"
| "run_assessments e sys ((task, stream) # rest) w =
     run_assessments e sys rest (snd (run_assessment e sys task stream w))"

text \<open>The dictionary literal of \<^verbatim>\<open>get_agent\<close>, in its order.\<close>

definition agents_table :: "system \<Rightarrow> (string \<times> agent) list" where
  "agents_table sys =
     [(''android'', android_agent (agents sys)),
      (''blue_team'', blue_team_agent (agents sys)),
      (''bug_bounty'', bug_bounty_agent (agents sys)),
      (''coding'', coding_agent (agents sys)),
      (''dfir'', dfir_agent (agents sys)),
      (''email'', email_security_agent (agents sys)),
      (''memory'', memory_agent (agents sys)),
      (''network'', network_agent (agents sys)),
      (''red_team'', red_team_agent (agents sys)),
      (''replay'', replay_attack_agent (agents sys)),
      (''reporting'', reporting_agent (agents sys)),
      (''triage'', triage_agent (agents sys)),
      (''reverse_engineering'', reverse_engineering_agent (agents sys)),
      (''rf'', subghz_agent (agents sys)),
      (''wifi'', wifi_agent (agents sys)),
      (''source_code'', source_code_analyzer_agent (agents sys)),
      (''sast'', source_code_analyzer_agent (agents sys))]"

text \<open>
  \<^verbatim>\<open>SecurityAgentSystem.get_agent\<close>: \<^verbatim>\<open>agents.get(agent_type.lower())\<close>, where \<open>None\<close> is
  Python's \<^verbatim>\<open>None\<close>. No key is written twice, so the first entry of a key is its entry.
\<close>

definition get_agent :: "env \<Rightarrow> system \<Rightarrow> string \<Rightarrow> agent option" where
  "get_agent e sys agent_type = map_of (agents_table sys) (str_lower e agent_type)"

subsection \<open>The toggle commands of the shell\<close>

text \<open>
  The local variables of \<^verbatim>\<open>main\<close> in \<^verbatim>\<open>crossbow_cli.py\<close> that the commands read and write
  (\<^verbatim>\<open>cli_mcp_servers\<close> is its \<^verbatim>\<open>mcp_servers\<close>).
\<close>

record cli_state =
  current_model :: string
  memory_enabled :: bool
  storage_enabled :: bool
  mcp_enabled :: bool
  cli_mcp_servers :: "server list"
  agent_system :: system

text \<open>The call \<^verbatim>\<open>SecurityAgentSystem(...)\<close> that every command makes, from the variables.\<close>

definition rebuild :: "env \<Rightarrow> cli_state \<Rightarrow> world \<Rightarrow> (exn + system) \<times> world" where
  "rebuild e st w =
     init e (current_model st) (memory_enabled st) (storage_enabled st) (mcp_enabled st)
       (Some (cli_mcp_servers st)) w"

text \<open>
  The branch of \<^verbatim>\<open>/memory\<close>: flip the flag, rebuild inside \<^verbatim>\<open>try\<close>; the assignment to
  \<^verbatim>\<open>agent_system\<close> happens only when the constructor returns, and the handler of
  \<^verbatim>\<open>except Exception\<close> flips the flag again. What the branch prints is left out.
\<close>

definition main_memory :: "env \<Rightarrow> cli_state \<Rightarrow> world \<Rightarrow> cli_state \<times> world" where
  "main_memory e st w =
     (let st1 = st\<lparr>memory_enabled := \<not> memory_enabled st\<rparr> in
      case rebuild e st1 w of
        (Inr sys, w') \<Rightarrow> (st1\<lparr>agent_system := sys\<rparr>, w')
      | (Inl ex, w') \<Rightarrow> (st1\<lparr>memory_enabled := \<not> memory_enabled st1\<rparr>, w'))"

text \<open>The branch of \<^verbatim>\<open>/storage\<close>.\<close>

definition main_storage :: "env \<Rightarrow> cli_state \<Rightarrow> world \<Rightarrow> cli_state \<times> world" where
  "main_storage e st w =
     (let st1 = st\<lparr>storage_enabled := \<not> storage_enabled st\<rparr> in
      case rebuild e st1 w of
        (Inr sys, w') \<Rightarrow> (st1\<lparr>agent_system := sys\<rparr>, w')
      | (Inl ex, w') \<Rightarrow> (st1\<lparr>storage_enabled := \<not> storage_enabled st1\<rparr>, w'))"

text \<open>The branch of \<^verbatim>\<open>/mcp\<close>.\<close>

definition main_mcp :: "env \<Rightarrow> cli_state \<Rightarrow> world \<Rightarrow> cli_state \<times> world" where
  "main_mcp e st w =
     (let st1 = st\<lparr>mcp_enabled := \<not> mcp_enabled st\<rparr> in
      case rebuild e st1 w of
        (Inr sys, w') \<Rightarrow> (st1\<lparr>agent_system := sys\<rparr>, w')
      | (Inl ex, w') \<Rightarrow> (st1\<lparr>mcp_enabled := \<not> mcp_enabled st1\<rparr>, w'))"

text \<open>
  The start of \<^verbatim>\<open>main\<close>: the variables from the command line (the list of servers starts
  empty) and the first system; when the constructor raises, the shell exits.
\<close>

definition main_startup ::
  "env \<Rightarrow> string \<Rightarrow> bool \<Rightarrow> bool \<Rightarrow> bool \<Rightarrow> world \<Rightarrow> (exn + cli_state) \<times> world" where
  "main_startup e model_id memory storage mcp w =
     (case init e model_id memory storage mcp (Some []) w of
        (Inr sys, w') \<Rightarrow>
          (Inr \<lparr>current_model = model_id, memory_enabled = memory, storage_enabled = storage,
                mcp_enabled = mcp, cli_mcp_servers = [], agent_system = sys\<rparr>, w')
      | (Inl ex, w') \<Rightarrow> (Inl ex, w'))"

subsection \<open>The registry, described from its input\<close>

text \<open>
  What the specification calls the command-based and the URL-based specs of a list, and
  what the registry makes of them. \<^verbatim>\<open>commands_of\<close> is the list handed to \<^verbatim>\<open>MultiMCPTools\<close>;
  a server is URL-based when it has a \<^verbatim>\<open>'url'\<close> key and no \<^verbatim>\<open>'command'\<close> key.
\<close>

definition commands_of :: "server list \<Rightarrow> string list" where
  "commands_of servers = List.map_filter (\<lambda>server. server ''command'') servers"

definition is_url_based :: "server \<Rightarrow> bool" where
  "is_url_based server = (server ''command'' = None \<and> server ''url'' \<noteq> None)"

definition url_servers_of :: "server list \<Rightarrow> server list" where
  "url_servers_of servers = filter is_url_based servers"

text \<open>The exception of the combined bridge, if there are commands and building it raises.\<close>

definition bridge_raises :: "env \<Rightarrow> server list \<Rightarrow> exn option" where
  "bridge_raises e servers =
     (if commands_of servers = [] then None else MultiMCPTools_raises e (commands_of servers))"

text \<open>The bridge as a list: empty without commands, one capability over all of them otherwise.\<close>

definition bridge_of :: "server list \<Rightarrow> capability list" where
  "bridge_of servers =
     (if commands_of servers = [] then [] else [MultiMCPTools (commands_of servers)])"

text \<open>The capabilities of the remote servers whose attachment returns, in their order.\<close>

definition attached :: "env \<Rightarrow> server list \<Rightarrow> capability list" where
  "attached e url_servers =
     List.map_filter
       (\<lambda>server. case new_MCPTools e server of Inr tool \<Rightarrow> Some tool | Inl ex \<Rightarrow> None)
       url_servers"

text \<open>The warnings of the remote servers whose attachment raises, in their order.\<close>

definition url_warnings :: "env \<Rightarrow> server list \<Rightarrow> printed list" where
  "url_warnings e url_servers =
     List.map_filter
       (\<lambda>server. case new_MCPTools e server of
                   Inr tool \<Rightarrow> None
                 | Inl ex \<Rightarrow> Some (Warning_MCP_server (dict_get server ''name'' ''unknown'') ex))
       url_servers"

text \<open>
  The ordering of the specification: the bridge (if any), then one capability per URL-based
  spec in input order, with \<^verbatim>\<open>'streamable-http'\<close> where no transport is given.
\<close>

definition url_capability :: "server \<Rightarrow> capability list" where
  "url_capability server =
     (case server ''url'' of
        None \<Rightarrow> []
      | Some u \<Rightarrow> [MCPTools u (dict_get server ''transport'' ''streamable-http'')])"

definition external_capabilities :: "server list \<Rightarrow> capability list" where
  "external_capabilities servers =
     bridge_of servers @ concat (map url_capability (url_servers_of servers))"

subsection \<open>The resolver, described by priority\<close>

text \<open>
  The three first-class providers, the fragments that name them, and the adapter of each.
  The resolver of the specification takes the first provider, in the order given, one of
  whose fragments occurs in the lower-cased identifier; without one it takes the generic
  adapter, or the default when that cannot be imported.
\<close>

datatype provider = Anthropic | OpenAI | Google

fun name_fragments :: "provider \<Rightarrow> string list" where
  "name_fragments Anthropic = [''claude'']"
| "name_fragments OpenAI = [''gpt'', ''o1'', ''o3'']"
| "name_fragments Google = [''gemini'']"

fun adapter_of :: "provider \<Rightarrow> string \<Rightarrow> model_adapter" where
  "adapter_of Anthropic model_id = Claude model_id"
| "adapter_of OpenAI model_id = OpenAIChat model_id"
| "adapter_of Google model_id = Gemini model_id"

definition names_provider :: "env \<Rightarrow> string \<Rightarrow> provider \<Rightarrow> bool" where
  "names_provider e model_id p =
     list_ex (\<lambda>fragment. str_contains fragment (str_lower e model_id)) (name_fragments p)"

definition resolve_by_priority :: "env \<Rightarrow> string \<Rightarrow> model_adapter" where
  "resolve_by_priority e model_id =
     (case find (names_provider e model_id) [Anthropic, OpenAI, Google] of
        Some p \<Rightarrow> adapter_of p model_id
      | None \<Rightarrow> if litellm_importable e then LiteLLM model_id ''LiteLLM'' else OpenAIChat model_id)"

subsection \<open>The roster as a table\<close>

text \<open>
  The sixteen role descriptions (name, role, instruction text) in the order of the source,
  and the one way a specialist is made from a description and the shared keyword
  arguments.
\<close>

definition role_specs :: "(string \<times> string \<times> prompt) list" where
  "role_specs =
     [(''Android SAST Specialist'', ''Android Security Testing Expert'', ANDROID_SAST_AGENT_PROMPT),
      (''Blue Team Defender'', ''Defense and Security Monitoring'', BLUETEAM_AGENT_PROMPT),
      (''Bug Bounty Hunter'', ''Web Vulnerability Research'', BUG_BOUNTY_AGENT_PROMPT),
      (''Security Developer'', ''Security Tool Development'', CODE_AGENT),
      (''DFIR Investigator'', ''Digital Forensics and Incident Response'', DFIR_AGENT_PROMPT),
      (''Email Security Analyst'', ''Email Configuration Security'', EMAIL_SPOOF_AGENT_PROMPT),
      (''Memory Forensics Expert'', ''Runtime Memory Analysis'', MEMPORY_ANALYSIS_PROMPT),
      (''Network Security Analyst'', ''Network Traffic Analysis'', NETWORK_ANALYSER_PROMPT),
      (''Red Team Operator'', ''Offensive Security Operations'', RED_TEAM_AGENT_PROMPT),
      (''Replay Attack Specialist'', ''Network Replay and Analysis'', REPlAY_ATTACK_AGENT_PROMPT),
      (''Security Reporter'', ''Security Documentation'', REPORTING_AGENT_PROMPT),
      (''Vulnerability Validator'', ''Security Finding Verification'', TRIAGER_AGENT_PROMPT),
      (''Reverse Engineer'', ''Binary Analysis and RE'', REVERSE_ENGINEERING_AGENT_PROMPT),
      (''RF Security Expert'', ''Sub-GHz Radio Analysis'', SUBGHZ_AGENT_PROMPT),
      (''WiFi Security Tester'', ''Wireless Network Security'', WIFI_SECURITY_AGENT_PROMPT),
      (''Source Code Analyzer'', ''SAST and Exploit Verification Specialist'',
         SOURCE_CODE_ANALYZER_AGENT_PROMPT)]"

definition specialist :: "agent_kwargs \<Rightarrow> string \<times> string \<times> prompt \<Rightarrow> agent" where
  "specialist kw spec = (case spec of (n, r, p) \<Rightarrow> Agent n r [p] kw)"

subsection \<open>Concrete inputs\<close>

text \<open>
  An environment in which everything is installed, one command cannot be started and one
  endpoint cannot be reached; an empty world; and four server entries as \<^verbatim>\<open>add_mcp_server\<close>
  of the shell builds them (the last without its \<^verbatim>\<open>'transport'\<close> key).
\<close>

definition env0 :: env where
  "env0 =
     \<lparr>str_lower = ascii_lower,
      litellm_importable = True,
      SECURITY_TOOLS = [SecurityTool ''nmap_scan'', SecurityTool ''run_bandit''],
      CROSSBOW_DIR = ''/home/user/.crossbow'',
      MultiMCPTools_raises =
        (\<lambda>commands. if ''npx -y @missing/server'' \<in> set commands
                    then Some (Exception ''spawn failed'') else None),
      MCPTools_raises =
        (\<lambda>url transport. if url = ''http://down.example/mcp''
                         then Some (Exception ''unreachable'') else None),
      SqliteDb_raises = (\<lambda>db_file. None),
      uuid4 = (\<lambda>k. ''session-'' @ replicate k (CHR ''x'')),
      print_response_raises = (\<lambda>task. None)\<rparr>"

definition world0 :: world where
  "world0 = \<lparr>stdout = [], uuid_draws = 0, team_calls = []\<rparr>"

definition git_server :: server where
  "git_server = [''name'' \<mapsto> ''Git Repository'',
                 ''command'' \<mapsto> ''npx -y @modelcontextprotocol/server-git'']"

definition missing_server :: server where
  "missing_server = [''name'' \<mapsto> ''Missing'', ''command'' \<mapsto> ''npx -y @missing/server'']"

definition docs_server :: server where
  "docs_server = [''name'' \<mapsto> ''Docs'', ''url'' \<mapsto> ''https://docs.agno.com/mcp'',
                  ''transport'' \<mapsto> ''streamable-http'']"

definition down_server :: server where
  "down_server = [''name'' \<mapsto> ''Down'', ''url'' \<mapsto> ''http://down.example/mcp'']"

text \<open>The same environment once no store can be opened any more.\<close>

definition env1 :: env where
  "env1 = env0\<lparr>SqliteDb_raises := (\<lambda>db_file. Some (Exception ''unable to open database file''))\<rparr>"

section \<open>Properties\<close>

subsection \<open>The registry in closed form\<close>

lemma commands_of_Nil: "commands_of [] = []"
  by (simp add: commands_of_def List.map_filter_simps)

lemma url_servers_of_Nil: "url_servers_of [] = []"
  by (simp add: url_servers_of_def)

lemma attached_Nil: "attached e [] = []"
  by (simp add: attached_def List.map_filter_simps)

lemma url_warnings_Nil: "url_warnings e [] = []"
  by (simp add: url_warnings_def List.map_filter_simps)

lemma split_servers_eq:
  "split_servers servers commands url_servers =
     (commands @ commands_of servers, url_servers @ url_servers_of servers)"
  by (induction servers arbitrary: commands url_servers)
     (auto simp: commands_of_def url_servers_of_def is_url_based_def List.map_filter_simps
           split: option.splits)

lemma add_url_servers_eq:
  "add_url_servers e url_servers tools w =
     (tools @ attached e url_servers, w\<lparr>stdout := stdout w @ url_warnings e url_servers\<rparr>)"
  by (induction url_servers arbitrary: tools w)
     (auto simp: attached_def url_warnings_def List.map_filter_simps py_print_def
           split: sum.splits)

lemma attach_mcp_eq:
  "attach_mcp e servers tools w =
     (if commands_of servers \<noteq> [] then
        (case MultiMCPTools_raises e (commands_of servers) of
           Some ex \<Rightarrow> Inl ex
         | None \<Rightarrow>
             Inr (tools @ [MultiMCPTools (commands_of servers)] @ attached e (url_servers_of servers),
                  Some (MultiMCPTools (commands_of servers)),
                  w\<lparr>stdout := stdout w @ url_warnings e (url_servers_of servers)\<rparr>))
      else
        Inr (tools @ attached e (url_servers_of servers), None,
             w\<lparr>stdout := stdout w @ url_warnings e (url_servers_of servers)\<rparr>))"
  by (simp add: attach_mcp_def split_servers_eq add_url_servers_eq split: option.splits)

text \<open>
  \<^verbatim>\<open>_initialize_tools\<close> at once. An empty list has no command and no remote server, so the
  test \<^verbatim>\<open>self.mcp_servers\<close> of the source needs no case of its own.
\<close>

lemma initialize_tools_eq:
  "initialize_tools e base use_mcp' servers w =
     (if use_mcp' then
        (case bridge_raises e servers of
           Some ex \<Rightarrow> (SECURITY_TOOLS e @ base, None, py_print (Warning_MCP_tools ex) w)
         | None \<Rightarrow>
             (SECURITY_TOOLS e @ base @ bridge_of servers @ attached e (url_servers_of servers),
              (if commands_of servers = [] then None
               else Some (MultiMCPTools (commands_of servers))),
              w\<lparr>stdout := stdout w @ url_warnings e (url_servers_of servers)\<rparr>))
      else (SECURITY_TOOLS e @ base, None, w))"
  by (cases "servers = []")
     (auto simp: initialize_tools_def attach_mcp_eq bridge_raises_def bridge_of_def
           commands_of_Nil url_servers_of_Nil attached_Nil url_warnings_Nil
           split: option.splits)

lemma commands_of_append: "commands_of (xs @ ys) = commands_of xs @ commands_of ys"
  by (simp add: commands_of_def List.map_filter_def)

lemma url_servers_of_append: "url_servers_of (xs @ ys) = url_servers_of xs @ url_servers_of ys"
  by (simp add: url_servers_of_def)

lemma attached_append: "attached e (xs @ ys) = attached e xs @ attached e ys"
  by (simp add: attached_def List.map_filter_def)

lemma url_warnings_append: "url_warnings e (xs @ ys) = url_warnings e xs @ url_warnings e ys"
  by (simp add: url_warnings_def List.map_filter_def)

lemma commands_of_url_based: "is_url_based s \<Longrightarrow> commands_of (s # ys) = commands_of ys"
  by (simp add: commands_of_def is_url_based_def List.map_filter_simps)

lemma url_servers_of_url_based: "is_url_based s \<Longrightarrow> url_servers_of (s # ys) = s # url_servers_of ys"
  by (simp add: url_servers_of_def)

lemma attached_failed: "new_MCPTools e s = Inl ex \<Longrightarrow> attached e (s # ys) = attached e ys"
  by (simp add: attached_def List.map_filter_simps)

lemma attached_returned: "new_MCPTools e s = Inr c \<Longrightarrow> attached e (s # ys) = c # attached e ys"
  by (simp add: attached_def List.map_filter_simps)

lemma url_warnings_failed:
  "new_MCPTools e s = Inl ex \<Longrightarrow>
     url_warnings e (s # ys) = Warning_MCP_server (dict_get s ''name'' ''unknown'') ex # url_warnings e ys"
  by (simp add: url_warnings_def List.map_filter_simps)

lemma new_MCPTools_returned: "new_MCPTools e s = Inr c \<Longrightarrow> url_capability s = [c]"
  by (auto simp: new_MCPTools_def url_capability_def split: option.splits)

text \<open>A URL-based server whose attachment raises, anywhere in the list.\<close>

lemma skip_facts:
  assumes "is_url_based s" and "new_MCPTools e s = Inl ex"
  shows "commands_of (xs @ s # ys) = commands_of (xs @ ys)"
    and "bridge_raises e (xs @ s # ys) = bridge_raises e (xs @ ys)"
    and "bridge_of (xs @ s # ys) = bridge_of (xs @ ys)"
    and "attached e (url_servers_of (xs @ s # ys)) = attached e (url_servers_of (xs @ ys))"
    and "url_warnings e (url_servers_of (xs @ s # ys)) =
           url_warnings e (url_servers_of xs)
           @ Warning_MCP_server (dict_get s ''name'' ''unknown'') ex # url_warnings e (url_servers_of ys)"
  using assms
  by (simp_all add: commands_of_append commands_of_url_based bridge_raises_def bridge_of_def
        url_servers_of_append url_servers_of_url_based attached_append attached_failed
        url_warnings_append url_warnings_failed)

lemma attached_subseq: "subseq (attached e us) (concat (map url_capability us))"
proof (induction us)
  case Nil
  show ?case by (simp add: attached_Nil)
next
  case (Cons s us)
  show ?case
  proof (cases "new_MCPTools e s")
    case (Inl ex)
    then have "attached e (s # us) = attached e us"
      by (rule attached_failed)
    with Cons show ?thesis
      by (simp add: list_emb_append2)
  next
    case (Inr c)
    with Cons show ?thesis
      by (simp add: attached_returned new_MCPTools_returned)
  qed
qed

lemma attached_all:
  "list_all (\<lambda>s. \<not> isl (new_MCPTools e s)) us \<Longrightarrow> attached e us = concat (map url_capability us)"
proof (induction us)
  case Nil
  show ?case by (simp add: attached_Nil)
next
  case (Cons s us)
  then obtain c where "new_MCPTools e s = Inr c"
    by (cases "new_MCPTools e s") auto
  with Cons show ?case
    by (simp add: attached_returned new_MCPTools_returned)
qed

subsection \<open>The constructor\<close>

text \<open>Python's \<^verbatim>\<open>in\<close> on strings is the contiguous-sublist relation.\<close>

lemma str_contains_sublist: "str_contains sub s = sublist sub s"
  by (induction s) (auto simp: sublist_Cons_right)

lemma get_model_returns: "\<exists>a. get_model e model_id = Inr a"
  by (simp add: get_model_def import_LiteLLM_def)

text \<open>What a constructor call that returns has put into the system.\<close>

lemma init_Inr:
  assumes "init e m um us uc srv w = (Inr sys, w')"
  shows "get_model e m = Inr (model sys)"
    and "model_name sys = m"
    and "use_memory sys = um"
    and "use_storage sys = us"
    and "use_mcp sys = uc"
    and "mcp_servers sys = (case srv of None \<Rightarrow> [] | Some l \<Rightarrow> l)"
    and "base_tools sys = [DuckDuckGoTools, FileTools ''.'' True False]"
    and "all_tools sys = fst (initialize_tools e (base_tools sys) uc (mcp_servers sys) w)"
    and "mcp_tools sys = fst (snd (initialize_tools e (base_tools sys) uc (mcp_servers sys) w))"
    and "open_if us (new_SqliteDb e ''agent_storage.db'') = Inr (storage_db sys)"
    and "open_if um (new_SqliteDb e ''crossbow_agents.db'') = Inr (memory_db sys)"
    and "agents sys = create_all_agents (model sys) (all_tools sys) (storage_db sys) (memory_db sys)"
    and "create_security_team e (model sys) (memory_db sys) (agents sys)
           (snd (snd (initialize_tools e (base_tools sys) uc (mcp_servers sys) w)))
         = (session_id sys, security_team sys, w')"
  using assms
  by (auto simp: init_def Let_def split: sum.splits prod.splits)

text \<open>A constructor call that raises: one of the two stores could not be opened.\<close>

lemma init_Inl:
  assumes "init e m um us uc srv w = (Inl ex, w')"
  shows "open_if us (new_SqliteDb e ''agent_storage.db'') = Inl ex
       \<or> open_if um (new_SqliteDb e ''crossbow_agents.db'') = Inl ex"
  using assms get_model_returns [of e m]
  by (auto simp: init_def Let_def split: sum.splits prod.splits)

lemma init_no_stores: "\<exists>sys w'. init e m False False uc srv w = (Inr sys, w')"
  using get_model_returns [of e m]
  by (auto simp: init_def Let_def open_if_def split: sum.splits prod.splits)

subsection \<open>Stores, roster and session of a system that was built\<close>

lemma open_if_Inr:
  "open_if flag (new_SqliteDb e file) = Inr x \<Longrightarrow>
     x = (if flag then Some (SqliteDb (CROSSBOW_DIR e @ ''/'' @ file)) else None)"
  by (auto simp: open_if_def new_SqliteDb_def split: if_splits option.splits sum.splits)

lemma create_security_team_eq:
  assumes "create_security_team e mdl mem ags w = (sid, tm, w')"
  shows "sid = uuid4 e (uuid_draws w)"
    and "w' = w\<lparr>uuid_draws := Suc (uuid_draws w)\<rparr>"
    and "team_model tm = mdl"
    and "team_db tm = mem"
    and "team_members tm =
       [android_agent ags, blue_team_agent ags, bug_bounty_agent ags, coding_agent ags,
        dfir_agent ags, email_security_agent ags, memory_agent ags, network_agent ags,
        red_team_agent ags, replay_attack_agent ags, reporting_agent ags,
        triage_agent ags, reverse_engineering_agent ags, subghz_agent ags,
        wifi_agent ags, source_code_analyzer_agent ags]"
  using assms
  by (auto simp: create_security_team_def Let_def split: option.splits)

lemma roster_eq:
  assumes "ags = create_all_agents mdl tools sdb mdb"
  shows "[android_agent ags, blue_team_agent ags, bug_bounty_agent ags, coding_agent ags,
    dfir_agent ags, email_security_agent ags, memory_agent ags, network_agent ags,
    red_team_agent ags, replay_attack_agent ags, reporting_agent ags,
    triage_agent ags, reverse_engineering_agent ags, subghz_agent ags,
    wifi_agent ags, source_code_analyzer_agent ags]
   = map (specialist (make_agent_kwargs mdl tools sdb mdb)) role_specs"
  by (simp add: assms create_all_agents_def Let_def role_specs_def specialist_def)

lemma init_members:
  assumes "init e m um us uc srv w = (Inr sys, w')"
  shows "team_members (security_team sys)
     = map (specialist (make_agent_kwargs (model sys) (all_tools sys) (storage_db sys) (memory_db sys)))
         role_specs"
  using create_security_team_eq(5) [OF init_Inr(13) [OF assms]]
    roster_eq [OF init_Inr(12) [OF assms]]
  by simp

lemma initialize_tools_world:
  "uuid_draws (snd (snd (initialize_tools e base uc servers w))) = uuid_draws w"
  "team_calls (snd (snd (initialize_tools e base uc servers w))) = team_calls w"
  by (simp_all add: initialize_tools_eq py_print_def split: option.splits)

lemma initialize_tools_fst:
  "fst (initialize_tools e base uc servers w) = fst (initialize_tools e base uc servers w2)"
  by (simp add: initialize_tools_eq split: option.splits)

lemma init_session:
  assumes "init e m um us uc srv w = (Inr sys, w')"
  shows "session_id sys = uuid4 e (uuid_draws w)" and "uuid_draws w' = Suc (uuid_draws w)"
  using create_security_team_eq(1,2) [OF init_Inr(13) [OF assms]]
  by (simp_all add: initialize_tools_world)

lemma run_assessments_calls:
  "team_calls (run_assessments e sys tasks w)
     = team_calls w @ map (\<lambda>(task, stream). (task, stream, session_id sys)) tasks"
  by (induction tasks arbitrary: w) (auto simp: run_assessment_def)

lemma run_assessments_draws: "uuid_draws (run_assessments e sys tasks w) = uuid_draws w"
  by (induction tasks arbitrary: w) (auto simp: run_assessment_def)

text \<open>The constructor returns when the stores it is asked for can be opened.\<close>

lemma init_returns:
  assumes "us \<longrightarrow> SqliteDb_raises e (CROSSBOW_DIR e @ ''/agent_storage.db'') = None"
    and "um \<longrightarrow> SqliteDb_raises e (CROSSBOW_DIR e @ ''/crossbow_agents.db'') = None"
  shows "\<exists>sys w'. init e m um us uc srv w = (Inr sys, w')"
  using assms get_model_returns [of e m]
  by (auto simp: init_def Let_def open_if_def new_SqliteDb_def split: sum.splits prod.splits)

text \<open>It raises when the first store it is asked for cannot be opened.\<close>

lemma init_raises:
  assumes "(us \<and> SqliteDb_raises e (CROSSBOW_DIR e @ ''/agent_storage.db'') = Some ex)
         \<or> (\<not> us \<and> um \<and> SqliteDb_raises e (CROSSBOW_DIR e @ ''/crossbow_agents.db'') = Some ex)"
  shows "fst (init e m um us uc srv w) = Inl ex"
  using assms get_model_returns [of e m]
  by (auto simp: init_def Let_def open_if_def new_SqliteDb_def split: sum.splits prod.splits)

section \<open>The claims\<close>

subsection \<open>C1: a failure of the combined bridge\<close>

text \<open>
  C1, as the code has it. When external providers are enabled, there is a command-based
  spec and building the combined bridge raises, the exception is caught by the outer
  handler, which prints one warning: the capability list is exactly the built-in
  capabilities, without the bridge and without any URL-based attachment (their loop comes
  after the bridge inside the same \<^verbatim>\<open>try\<close>), and \<^verbatim>\<open>self.mcp_tools\<close> stays \<^verbatim>\<open>None\<close>. The
  constructor goes on: if it returns, the system has this list; if it raises, the
  exception is that of a store that could not be opened.
\<close>

theorem bridge_failure_drops_external:
  assumes "bridge_raises e servers = Some ex"
  shows "initialize_tools e base True servers w
           = (SECURITY_TOOLS e @ base, None, py_print (Warning_MCP_tools ex) w)
       \<and> (case fst (init e m um us True (Some servers) w) of
            Inr sys \<Rightarrow>
              all_tools sys = SECURITY_TOOLS e @ [DuckDuckGoTools, FileTools ''.'' True False]
              \<and> mcp_tools sys = None
          | Inl x \<Rightarrow>
              open_if us (new_SqliteDb e ''agent_storage.db'') = Inl x
              \<or> open_if um (new_SqliteDb e ''crossbow_agents.db'') = Inl x)"
proof
  show "initialize_tools e base True servers w
           = (SECURITY_TOOLS e @ base, None, py_print (Warning_MCP_tools ex) w)"
    using assms by (simp add: initialize_tools_eq)
next
  obtain r w' where r: "init e m um us True (Some servers) w = (r, w')"
    by (cases "init e m um us True (Some servers) w")
  show "case fst (init e m um us True (Some servers) w) of
            Inr sys \<Rightarrow>
              all_tools sys = SECURITY_TOOLS e @ [DuckDuckGoTools, FileTools ''.'' True False]
              \<and> mcp_tools sys = None
          | Inl x \<Rightarrow>
              open_if us (new_SqliteDb e ''agent_storage.db'') = Inl x
              \<or> open_if um (new_SqliteDb e ''crossbow_agents.db'') = Inl x"
  proof (cases r)
    case (Inl x)
    with r show ?thesis
      using init_Inl [of e m um us True "Some servers" w x w'] by simp
  next
    case (Inr sys)
    with r have i: "init e m um us True (Some servers) w = (Inr sys, w')"
      by simp
    show ?thesis
      using assms r Inr init_Inr(6-9) [OF i]
      by (simp add: initialize_tools_eq)
  qed
qed

text \<open>
  The theorem at a list with a command that cannot be started and a reachable endpoint:
  the built-in capabilities alone, one warning, and a system is built.
\<close>

theorem bridge_failure_drops_external_witness:
  "bridge_raises env0 [missing_server, docs_server] = Some (Exception ''spawn failed'')
   \<and> initialize_tools env0 [DuckDuckGoTools, FileTools ''.'' True False] True
        [missing_server, docs_server] world0
       = ([SecurityTool ''nmap_scan'', SecurityTool ''run_bandit'', DuckDuckGoTools,
           FileTools ''.'' True False], None,
          \<lparr>stdout = [Warning_MCP_tools (Exception ''spawn failed'')], uuid_draws = 0,
           team_calls = []\<rparr>)
   \<and> (\<exists>sys w'. init env0 ''gpt-4o-mini'' False False True (Some [missing_server, docs_server]) world0
                  = (Inr sys, w')
        \<and> all_tools sys = [SecurityTool ''nmap_scan'', SecurityTool ''run_bandit'',
                            DuckDuckGoTools, FileTools ''.'' True False])"
proof -
  have h1: "bridge_raises env0 [missing_server, docs_server] = Some (Exception ''spawn failed'')"
    by (simp add: bridge_raises_def commands_of_def List.map_filter_simps env0_def
          missing_server_def docs_server_def)
  have h2: "SECURITY_TOOLS env0 = [SecurityTool ''nmap_scan'', SecurityTool ''run_bandit'']"
    by (simp add: env0_def)
  obtain sys w' where
    i: "init env0 ''gpt-4o-mini'' False False True (Some [missing_server, docs_server]) world0
          = (Inr sys, w')"
    using init_no_stores by blast
  show ?thesis
    using bridge_failure_drops_external [OF h1,
        where base = "[DuckDuckGoTools, FileTools ''.'' True False]" and w = world0
          and m = "''gpt-4o-mini''" and um = False and us = False] h1 h2 i
    by (simp add: py_print_def world0_def)
qed

text \<open>
  The claim as it is written fails there: the endpoint of the second entry can be
  attached, and its capability is not in the list.
\<close>

theorem bridge_failure_counterexample:
  "bridge_raises env0 [missing_server, docs_server] = Some (Exception ''spawn failed'')
   \<and> is_url_based docs_server
   \<and> new_MCPTools env0 docs_server = Inr (MCPTools ''https://docs.agno.com/mcp'' ''streamable-http'')
   \<and> MCPTools ''https://docs.agno.com/mcp'' ''streamable-http''
       \<notin> set (fst (initialize_tools env0 [DuckDuckGoTools, FileTools ''.'' True False] True
                     [missing_server, docs_server] world0))"
  by (simp add: initialize_tools_def attach_mcp_def bridge_raises_def commands_of_def
        is_url_based_def new_MCPTools_def dict_get_def List.map_filter_simps py_print_def
        env0_def world0_def missing_server_def docs_server_def)

subsection \<open>C2: the model resolver\<close>

text \<open>
  C2, as the code has it. For every identifier the resolver returns, and never raises: the
  adapter of the first provider, in the order Anthropic, OpenAI, Google, one of whose
  fragments occurs in the lower-cased identifier; when none occurs, the generic adapter,
  or the adapter of OpenAI when the generic one cannot be imported.
\<close>

theorem get_model_by_priority:
  "get_model e model_id = Inr (resolve_by_priority e model_id)"
  by (simp add: get_model_def resolve_by_priority_def names_provider_def import_LiteLLM_def)

text \<open>
  The claim as it is written asks for the adapter of every provider a fragment of which
  occurs. The identifier \<^verbatim>\<open>claude-gpt\<close> has the fragment \<^verbatim>\<open>gpt\<close> of OpenAI and resolves to
  the adapter of Anthropic.
\<close>

theorem get_model_counterexample:
  "names_provider env0 ''claude-gpt'' OpenAI
   \<and> get_model env0 ''claude-gpt'' = Inr (Claude ''claude-gpt'')
   \<and> get_model env0 ''claude-gpt'' \<noteq> Inr (adapter_of OpenAI ''claude-gpt'')"
  by (simp add: names_provider_def get_model_def env0_def ascii_lower_def ascii_lower_char_def)

subsection \<open>C3: a failure of one URL-based attachment\<close>

text \<open>
  C3. Let \<open>s\<close> be a URL-based spec whose attachment raises \<open>ex\<close>, anywhere in the list.
  The capability list and \<^verbatim>\<open>self.mcp_tools\<close> are those of the list without \<open>s\<close>: the
  built-in capabilities, the bridge and the other attachments are as if \<open>s\<close> were not
  there. When the loop over the URL-based specs is reached (external providers enabled,
  the bridge built), the warning for \<open>s\<close>, with its name and \<open>ex\<close>, is printed between the
  warnings of the specs before and after it. \<^verbatim>\<open>_initialize_tools\<close> returns in every case.
\<close>

theorem url_failure_is_skipped:
  assumes "is_url_based s" and "new_MCPTools e s = Inl ex"
  shows "fst (initialize_tools e base use_mcp' (xs @ s # ys) w)
           = fst (initialize_tools e base use_mcp' (xs @ ys) w)
       \<and> fst (snd (initialize_tools e base use_mcp' (xs @ s # ys) w))
           = fst (snd (initialize_tools e base use_mcp' (xs @ ys) w))
       \<and> (use_mcp' \<and> bridge_raises e (xs @ s # ys) = None \<longrightarrow>
            stdout (snd (snd (initialize_tools e base use_mcp' (xs @ s # ys) w)))
              = stdout w @ url_warnings e (url_servers_of xs)
                @ Warning_MCP_server (dict_get s ''name'' ''unknown'') ex
                # url_warnings e (url_servers_of ys))"
  by (simp add: initialize_tools_eq skip_facts [OF assms] split: option.splits)

text \<open>
  The theorem at a list of a command, an endpoint that cannot be reached and one that
  can: the list is that of the other two entries, and the one warning names the endpoint.
\<close>

theorem url_failure_is_skipped_witness:
  "is_url_based down_server
   \<and> new_MCPTools env0 down_server = Inl (Exception ''unreachable'')
   \<and> fst (initialize_tools env0 [DuckDuckGoTools, FileTools ''.'' True False] True
           ([git_server] @ down_server # [docs_server]) world0)
       = fst (initialize_tools env0 [DuckDuckGoTools, FileTools ''.'' True False] True
           ([git_server] @ [docs_server]) world0)
   \<and> stdout (snd (snd (initialize_tools env0 [DuckDuckGoTools, FileTools ''.'' True False] True
           ([git_server] @ down_server # [docs_server]) world0)))
       = [Warning_MCP_server ''Down'' (Exception ''unreachable'')]"
proof -
  have h1: "is_url_based down_server"
    by (simp add: is_url_based_def down_server_def)
  have h2: "new_MCPTools env0 down_server = Inl (Exception ''unreachable'')"
    by (simp add: new_MCPTools_def dict_get_def env0_def down_server_def)
  have h3: "bridge_raises env0 ([git_server] @ down_server # [docs_server]) = None"
    by (simp add: bridge_raises_def commands_of_def List.map_filter_simps env0_def
          git_server_def down_server_def docs_server_def)
  have h4: "url_warnings env0 (url_servers_of [git_server]) = []"
    by (simp add: url_warnings_Nil url_servers_of_def is_url_based_def git_server_def)
  have h5: "url_warnings env0 (url_servers_of [docs_server]) = []"
    by (simp add: url_warnings_def url_servers_of_def is_url_based_def new_MCPTools_def
          dict_get_def List.map_filter_simps env0_def docs_server_def)
  have h6: "stdout world0 = []"
    by (simp add: world0_def)
  have h7: "dict_get down_server ''name'' ''unknown'' = ''Down''"
    by (simp add: dict_get_def down_server_def)
  show ?thesis
    using url_failure_is_skipped [OF h1 h2, of "[DuckDuckGoTools, FileTools ''.'' True False]"
        True "[git_server]" "[docs_server]" world0] h1 h2 h3 h4 h5 h6 h7
    by simp
qed

subsection \<open>C4: memory and storage\<close>

text \<open>
  C4. In a system that was built, the storage store exists exactly when storage is
  enabled and the memory store exactly when memory is enabled, and they are two different
  stores, so both can be there. Every specialist is wired alike: its database is the
  memory store when memory is enabled (alone or with storage) and the storage store
  otherwise; prior turns are appended to the context when either is enabled; long-term
  user memories are kept exactly when memory is enabled.
\<close>

theorem persistence_wiring:
  assumes "init e m um us uc srv w = (Inr sys, w')"
  shows "storage_db sys = (if us then Some (SqliteDb (CROSSBOW_DIR e @ ''/agent_storage.db'')) else None)
       \<and> memory_db sys = (if um then Some (SqliteDb (CROSSBOW_DIR e @ ''/crossbow_agents.db'')) else None)
       \<and> SqliteDb (CROSSBOW_DIR e @ ''/agent_storage.db'') \<noteq> SqliteDb (CROSSBOW_DIR e @ ''/crossbow_agents.db'')
       \<and> list_all
           (\<lambda>a. agent_db a = (if um then memory_db sys else storage_db sys)
                \<and> agent_add_history_to_context a = (if um \<or> us then Some True else None)
                \<and> agent_enable_user_memories a = (if um then Some True else None))
           (team_members (security_team sys))"
proof -
  have s: "storage_db sys = (if us then Some (SqliteDb (CROSSBOW_DIR e @ ''/agent_storage.db'')) else None)"
    using open_if_Inr [OF init_Inr(10) [OF assms]] by simp
  have m: "memory_db sys = (if um then Some (SqliteDb (CROSSBOW_DIR e @ ''/crossbow_agents.db'')) else None)"
    using open_if_Inr [OF init_Inr(11) [OF assms]] by simp
  have "list_all
           (\<lambda>a. agent_db a = (if um then memory_db sys else storage_db sys)
                \<and> agent_add_history_to_context a = (if um \<or> us then Some True else None)
                \<and> agent_enable_user_memories a = (if um then Some True else None))
           (team_members (security_team sys))"
    unfolding init_members [OF assms]
    by (simp add: s m role_specs_def specialist_def Agent_def make_agent_kwargs_def)
  with s m show ?thesis
    by simp
qed

text \<open>
  The theorem with both enabled: both stores exist, and every specialist has the memory
  store, the history and the user memories.
\<close>

theorem persistence_wiring_witness:
  "\<exists>sys w'. init env0 ''gpt-4o-mini'' True True False None world0 = (Inr sys, w')
     \<and> storage_db sys = Some (SqliteDb ''/home/user/.crossbow/agent_storage.db'')
     \<and> memory_db sys = Some (SqliteDb ''/home/user/.crossbow/crossbow_agents.db'')
     \<and> list_all
          (\<lambda>a. agent_db a = Some (SqliteDb ''/home/user/.crossbow/crossbow_agents.db'')
               \<and> agent_add_history_to_context a = Some True
               \<and> agent_enable_user_memories a = Some True)
          (team_members (security_team sys))"
proof -
  have "SqliteDb_raises env0 (CROSSBOW_DIR env0 @ ''/agent_storage.db'') = None"
    and "SqliteDb_raises env0 (CROSSBOW_DIR env0 @ ''/crossbow_agents.db'') = None"
    by (simp_all add: env0_def)
  then obtain sys w' where
    i: "init env0 ''gpt-4o-mini'' True True False None world0 = (Inr sys, w')"
    using init_returns [of True env0 True "''gpt-4o-mini''" False None world0] by blast
  have d: "CROSSBOW_DIR env0 = ''/home/user/.crossbow''"
    by (simp add: env0_def)
  have p: "storage_db sys = Some (SqliteDb ''/home/user/.crossbow/agent_storage.db'')"
    "memory_db sys = Some (SqliteDb ''/home/user/.crossbow/crossbow_agents.db'')"
    "list_all
       (\<lambda>a. agent_db a = Some (SqliteDb ''/home/user/.crossbow/crossbow_agents.db'')
            \<and> agent_add_history_to_context a = Some True
            \<and> agent_enable_user_memories a = Some True)
       (team_members (security_team sys))"
    using persistence_wiring [OF i] d by auto
  with i show ?thesis
    by blast
qed

subsection \<open>C5: the session identifier\<close>

text \<open>
  C5. A constructor call that returns draws one identifier from \<^verbatim>\<open>uuid.uuid4()\<close>, the next
  one the source hands out, and keeps it as \<^verbatim>\<open>session_id\<close>; every task submitted through
  \<^verbatim>\<open>run_assessment\<close>, however many, reaches the team with that identifier. A second
  system built from the same arguments afterwards (here after any number of tasks on the
  first) has the following draw as its identifier, not the first system's; the two are
  different whenever \<^verbatim>\<open>uuid4\<close> never hands out the same value twice.
\<close>

theorem session_identifier:
  assumes "init e m um us uc srv w = (Inr sys, w')"
  shows "session_id sys = uuid4 e (uuid_draws w)
       \<and> uuid_draws w' = Suc (uuid_draws w)
       \<and> team_calls (run_assessments e sys tasks w0)
           = team_calls w0 @ map (\<lambda>(task, stream). (task, stream, session_id sys)) tasks
       \<and> (inj (uuid4 e) \<and> init e m um us uc srv (run_assessments e sys tasks w') = (Inr sys2, w2) \<longrightarrow>
            session_id sys2 = uuid4 e (Suc (uuid_draws w)) \<and> session_id sys2 \<noteq> session_id sys)"
proof (intro conjI impI)
  show "session_id sys = uuid4 e (uuid_draws w)" and "uuid_draws w' = Suc (uuid_draws w)"
    using init_session [OF assms] by simp_all
  show "team_calls (run_assessments e sys tasks w0)
           = team_calls w0 @ map (\<lambda>(task, stream). (task, stream, session_id sys)) tasks"
    by (rule run_assessments_calls)
next
  assume a: "inj (uuid4 e) \<and> init e m um us uc srv (run_assessments e sys tasks w') = (Inr sys2, w2)"
  then have i2: "init e m um us uc srv (run_assessments e sys tasks w') = (Inr sys2, w2)"
    by simp
  show s2: "session_id sys2 = uuid4 e (Suc (uuid_draws w))"
    using init_session(1) [OF i2] init_session(2) [OF assms]
    by (simp add: run_assessments_draws)
  from a have "uuid4 e (Suc (uuid_draws w)) \<noteq> uuid4 e (uuid_draws w)"
    by (auto dest: injD)
  with s2 init_session(1) [OF assms] show "session_id sys2 \<noteq> session_id sys"
    by simp
qed

text \<open>
  The theorem at two systems built one after the other, with one task in between: the
  identifiers are the first two draws, and the task carries the first.
\<close>

theorem session_identifier_witness:
  "inj (uuid4 env0)
   \<and> (\<exists>sys w' sys2 w2.
        init env0 ''gpt-4o-mini'' False False False None world0 = (Inr sys, w')
        \<and> init env0 ''gpt-4o-mini'' False False False None
             (run_assessments env0 sys [(''scan the host'', True)] w') = (Inr sys2, w2)
        \<and> session_id sys = ''session-''
        \<and> session_id sys2 = ''session-x''
        \<and> team_calls (run_assessments env0 sys [(''scan the host'', True)] world0)
            = [(''scan the host'', True, ''session-'')])"
proof -
  have j: "inj (uuid4 env0)"
    by (simp add: inj_def env0_def)
  obtain sys w' where i: "init env0 ''gpt-4o-mini'' False False False None world0 = (Inr sys, w')"
    using init_no_stores by blast
  obtain sys2 w2 where
    i2: "init env0 ''gpt-4o-mini'' False False False None
           (run_assessments env0 sys [(''scan the host'', True)] w') = (Inr sys2, w2)"
    using init_no_stores by blast
  have u: "uuid4 env0 0 = ''session-''" "uuid4 env0 (Suc 0) = ''session-x''"
    by (simp_all add: env0_def)
  have w: "uuid_draws world0 = 0" "team_calls world0 = []"
    by (simp_all add: world0_def)
  have "session_id sys = ''session-''
      \<and> session_id sys2 = ''session-x''
      \<and> team_calls (run_assessments env0 sys [(''scan the host'', True)] world0)
            = [(''scan the host'', True, ''session-'')]"
    using session_identifier [OF i, of "[(''scan the host'', True)]" world0 sys2 w2] j i2 u w
    by simp
  with j i i2 show ?thesis
    by blast
qed

subsection \<open>C6: one model and one capability list\<close>

text \<open>
  C6. In a system that was built, whatever the arguments, the members of the team are the
  sixteen specialists; each of them has the model of the system and the capability list
  of the system, the team has that model too, and so has every agent that \<^verbatim>\<open>get_agent\<close>
  returns.
\<close>

theorem specialists_share_model_and_tools:
  assumes "init e m um us uc srv w = (Inr sys, w')"
  shows "team_members (security_team sys)
           = [android_agent (agents sys), blue_team_agent (agents sys),
              bug_bounty_agent (agents sys), coding_agent (agents sys), dfir_agent (agents sys),
              email_security_agent (agents sys), memory_agent (agents sys),
              network_agent (agents sys), red_team_agent (agents sys),
              replay_attack_agent (agents sys), reporting_agent (agents sys),
              triage_agent (agents sys), reverse_engineering_agent (agents sys),
              subghz_agent (agents sys), wifi_agent (agents sys),
              source_code_analyzer_agent (agents sys)]
       \<and> list_all (\<lambda>a. agent_model a = model sys \<and> agent_tools a = all_tools sys)
           (team_members (security_team sys))
       \<and> team_model (security_team sys) = model sys
       \<and> (get_agent e sys agent_type = Some a \<longrightarrow>
            agent_model a = model sys \<and> agent_tools a = all_tools sys)"
proof (intro conjI impI)
  show "team_members (security_team sys)
           = [android_agent (agents sys), blue_team_agent (agents sys),
              bug_bounty_agent (agents sys), coding_agent (agents sys), dfir_agent (agents sys),
              email_security_agent (agents sys), memory_agent (agents sys),
              network_agent (agents sys), red_team_agent (agents sys),
              replay_attack_agent (agents sys), reporting_agent (agents sys),
              triage_agent (agents sys), reverse_engineering_agent (agents sys),
              subghz_agent (agents sys), wifi_agent (agents sys),
              source_code_analyzer_agent (agents sys)]"
    by (rule create_security_team_eq(5) [OF init_Inr(13) [OF assms]])
  show l: "list_all (\<lambda>a. agent_model a = model sys \<and> agent_tools a = all_tools sys)
           (team_members (security_team sys))"
    unfolding init_members [OF assms]
    by (simp add: role_specs_def specialist_def Agent_def make_agent_kwargs_def Let_def
          split: option.splits)
  show "team_model (security_team sys) = model sys"
    by (rule create_security_team_eq(3) [OF init_Inr(13) [OF assms]])
  assume g: "get_agent e sys agent_type = Some a"
  then have "a \<in> snd ` set (agents_table sys)"
    unfolding get_agent_def by (metis map_of_SomeD image_eqI snd_conv)
  also have "snd ` set (agents_table sys) = set (team_members (security_team sys))"
    unfolding create_security_team_eq(5) [OF init_Inr(13) [OF assms]]
    by (auto simp: agents_table_def)
  finally show "agent_model a = model sys" and "agent_tools a = all_tools sys"
    using l by (auto simp: list_all_iff)
qed

text \<open>
  The theorem at a system with a Claude model and one command-based server: the agent
  that \<^verbatim>\<open>get_agent("WiFi")\<close> returns has the model and the capability list of the system.
\<close>

theorem specialists_share_model_and_tools_witness:
  "\<exists>sys w'. init env0 ''claude-sonnet-4-5'' False False True (Some [git_server]) world0 = (Inr sys, w')
     \<and> get_agent env0 sys ''WiFi'' = Some (wifi_agent (agents sys))
     \<and> model sys = Claude ''claude-sonnet-4-5''
     \<and> agent_model (wifi_agent (agents sys)) = Claude ''claude-sonnet-4-5''
     \<and> agent_tools (wifi_agent (agents sys)) = all_tools sys"
proof -
  obtain sys w' where
    i: "init env0 ''claude-sonnet-4-5'' False False True (Some [git_server]) world0 = (Inr sys, w')"
    using init_no_stores by blast
  have g: "get_agent env0 sys ''WiFi'' = Some (wifi_agent (agents sys))"
    by (simp add: get_agent_def agents_table_def env0_def ascii_lower_def ascii_lower_char_def)
  have "get_model env0 ''claude-sonnet-4-5'' = Inr (Claude ''claude-sonnet-4-5'')"
    by (simp add: get_model_def env0_def ascii_lower_def ascii_lower_char_def)
  with init_Inr(1) [OF i] have m: "model sys = Claude ''claude-sonnet-4-5''"
    by simp
  show ?thesis
    using specialists_share_model_and_tools [OF i, where agent_type = "''WiFi''"
          and a = "wifi_agent (agents sys)"]
      i g m
    by auto
qed

subsection \<open>C7: the roster\<close>

text \<open>
  C7, as the code has it. In every system that was built, whatever the arguments, the members of the team are
  the sixteen specialists made, each in the same way, from the sixteen role descriptions
  and one set of keyword arguments: sixteen members, with the sixteen names of the source
  in its order, all different. A second system built from any other arguments, in any
  environment, has the same names, roles and instruction texts in the same order. When
  only the memory and storage toggles differ, each specialist of the second system is the
  specialist of the first at the same place but for its persistence wiring (database,
  history, user memories); when only the external-provider toggle or list differs, but
  for its capability list.
\<close>

theorem roster_is_fixed:
  assumes "init e m um us uc srv w = (Inr sys, w')"
  shows "team_members (security_team sys)
           = map (specialist (make_agent_kwargs (model sys) (all_tools sys) (storage_db sys)
                   (memory_db sys))) role_specs
       \<and> length (team_members (security_team sys)) = 16
       \<and> map agent_name (team_members (security_team sys))
           = [''Android SAST Specialist'', ''Blue Team Defender'', ''Bug Bounty Hunter'',
              ''Security Developer'', ''DFIR Investigator'', ''Email Security Analyst'',
              ''Memory Forensics Expert'', ''Network Security Analyst'', ''Red Team Operator'',
              ''Replay Attack Specialist'', ''Security Reporter'', ''Vulnerability Validator'',
              ''Reverse Engineer'', ''RF Security Expert'', ''WiFi Security Tester'',
              ''Source Code Analyzer'']
       \<and> distinct (map agent_name (team_members (security_team sys)))
       \<and> (init e2 m2 um2 us2 uc2 srv2 w2 = (Inr sys2, w2') \<longrightarrow>
            map (\<lambda>a. (agent_name a, agent_role a, agent_instructions a))
                (team_members (security_team sys2))
            = map (\<lambda>a. (agent_name a, agent_role a, agent_instructions a))
                (team_members (security_team sys)))
       \<and> (init e m um3 us3 uc srv w3 = (Inr sys3, w3') \<longrightarrow>
            list_all2
              (\<lambda>a b. b = a\<lparr>agent_db := agent_db b,
                            agent_add_history_to_context := agent_add_history_to_context b,
                            agent_enable_user_memories := agent_enable_user_memories b\<rparr>)
              (team_members (security_team sys)) (team_members (security_team sys3)))
       \<and> (init e m um us uc4 srv4 w4 = (Inr sys4, w4') \<longrightarrow>
            list_all2 (\<lambda>a b. b = a\<lparr>agent_tools := agent_tools b\<rparr>)
              (team_members (security_team sys)) (team_members (security_team sys4)))"
proof (intro conjI impI)
  show "team_members (security_team sys)
           = map (specialist (make_agent_kwargs (model sys) (all_tools sys) (storage_db sys)
                   (memory_db sys))) role_specs"
    by (rule init_members [OF assms])
  show "length (team_members (security_team sys)) = 16"
    unfolding init_members [OF assms] by (simp add: role_specs_def)
  show n: "map agent_name (team_members (security_team sys))
           = [''Android SAST Specialist'', ''Blue Team Defender'', ''Bug Bounty Hunter'',
              ''Security Developer'', ''DFIR Investigator'', ''Email Security Analyst'',
              ''Memory Forensics Expert'', ''Network Security Analyst'', ''Red Team Operator'',
              ''Replay Attack Specialist'', ''Security Reporter'', ''Vulnerability Validator'',
              ''Reverse Engineer'', ''RF Security Expert'', ''WiFi Security Tester'',
              ''Source Code Analyzer'']"
    unfolding init_members [OF assms] by (simp add: role_specs_def specialist_def Agent_def)
  show "distinct (map agent_name (team_members (security_team sys)))"
    unfolding n by simp
next
  assume i2: "init e2 m2 um2 us2 uc2 srv2 w2 = (Inr sys2, w2')"
  show "map (\<lambda>a. (agent_name a, agent_role a, agent_instructions a))
                (team_members (security_team sys2))
            = map (\<lambda>a. (agent_name a, agent_role a, agent_instructions a))
                (team_members (security_team sys))"
    unfolding init_members [OF assms] init_members [OF i2]
    by (simp add: role_specs_def specialist_def Agent_def)
next
  assume i3: "init e m um3 us3 uc srv w3 = (Inr sys3, w3')"
  have "model sys3 = model sys"
    using init_Inr(1) [OF assms] init_Inr(1) [OF i3] by simp
  moreover have "all_tools sys3 = all_tools sys"
    using init_Inr(6-8) [OF assms] init_Inr(6-8) [OF i3]
      initialize_tools_fst [of e _ uc _ w w3]
    by simp
  ultimately show "list_all2
              (\<lambda>a b. b = a\<lparr>agent_db := agent_db b,
                            agent_add_history_to_context := agent_add_history_to_context b,
                            agent_enable_user_memories := agent_enable_user_memories b\<rparr>)
              (team_members (security_team sys)) (team_members (security_team sys3))"
    unfolding init_members [OF assms] init_members [OF i3]
    by (simp add: role_specs_def specialist_def Agent_def make_agent_kwargs_def Let_def
          split: option.splits)
next
  assume i4: "init e m um us uc4 srv4 w4 = (Inr sys4, w4')"
  have "model sys4 = model sys"
    using init_Inr(1) [OF assms] init_Inr(1) [OF i4] by simp
  moreover have "storage_db sys4 = storage_db sys" and "memory_db sys4 = memory_db sys"
    using init_Inr(10,11) [OF assms] init_Inr(10,11) [OF i4] by simp_all
  ultimately show "list_all2 (\<lambda>a b. b = a\<lparr>agent_tools := agent_tools b\<rparr>)
              (team_members (security_team sys)) (team_members (security_team sys4))"
    unfolding init_members [OF assms] init_members [OF i4]
    by (simp add: role_specs_def specialist_def Agent_def make_agent_kwargs_def Let_def
          split: option.splits)
qed

text \<open>
  The theorem at a system without memory and the system built next with memory: sixteen
  members, the same names, roles and instructions, and only the wiring differs.
\<close>

theorem roster_is_fixed_witness:
  "\<exists>sys w' sys2 w2.
     init env0 ''gpt-4o-mini'' False False False None world0 = (Inr sys, w')
     \<and> init env0 ''gpt-4o-mini'' True False False None w' = (Inr sys2, w2)
     \<and> length (team_members (security_team sys2)) = 16
     \<and> map (\<lambda>a. (agent_name a, agent_role a, agent_instructions a))
            (team_members (security_team sys2))
         = map (\<lambda>a. (agent_name a, agent_role a, agent_instructions a))
            (team_members (security_team sys))
     \<and> list_all2
          (\<lambda>a b. b = a\<lparr>agent_db := agent_db b,
                        agent_add_history_to_context := agent_add_history_to_context b,
                        agent_enable_user_memories := agent_enable_user_memories b\<rparr>)
          (team_members (security_team sys)) (team_members (security_team sys2))"
proof -
  obtain sys w' where i: "init env0 ''gpt-4o-mini'' False False False None world0 = (Inr sys, w')"
    using init_no_stores by blast
  have "SqliteDb_raises env0 (CROSSBOW_DIR env0 @ ''/crossbow_agents.db'') = None"
    by (simp add: env0_def)
  then obtain sys2 w2 where i2: "init env0 ''gpt-4o-mini'' True False False None w' = (Inr sys2, w2)"
    using init_returns [of False env0 True "''gpt-4o-mini''" False None w'] by blast
  have "length (team_members (security_team sys2)) = 16"
    using roster_is_fixed [OF i2] by blast
  moreover have "map (\<lambda>a. (agent_name a, agent_role a, agent_instructions a))
            (team_members (security_team sys2))
         = map (\<lambda>a. (agent_name a, agent_role a, agent_instructions a))
            (team_members (security_team sys))
     \<and> list_all2
          (\<lambda>a b. b = a\<lparr>agent_db := agent_db b,
                        agent_add_history_to_context := agent_add_history_to_context b,
                        agent_enable_user_memories := agent_enable_user_memories b\<rparr>)
          (team_members (security_team sys)) (team_members (security_team sys2))"
    using roster_is_fixed [OF i, where ?e2.0 = env0 and ?m2.0 = "''gpt-4o-mini''" and ?um2.0 = True
        and ?us2.0 = False and ?uc2.0 = False and ?srv2.0 = None and ?w2.0 = w' and ?sys2.0 = sys2
        and ?w2'.0 = w2 and ?um3.0 = True and ?us3.0 = False and ?w3.0 = w' and ?sys3.0 = sys2
        and ?w3'.0 = w2 and ?uc4.0 = False and ?srv4.0 = None and ?w4.0 = world0
        and ?sys4.0 = sys and ?w4'.0 = w'] i i2
    by blast
  ultimately show ?thesis
    using i i2 by blast
qed

text \<open>
  The claim as it is written says that nothing but the persistence wiring differs after any
  toggle. Enabling external providers with one command-based server configured changes
  the capability list of the specialists, and not their database.
\<close>

theorem roster_counterexample:
  "map_sum id (agent_tools \<circ> android_agent \<circ> agents)
     (fst (init env0 ''gpt-4o-mini'' False False False (Some [git_server]) world0))
     = Inr [SecurityTool ''nmap_scan'', SecurityTool ''run_bandit'', DuckDuckGoTools,
            FileTools ''.'' True False]
   \<and> map_sum id (agent_tools \<circ> android_agent \<circ> agents)
     (fst (init env0 ''gpt-4o-mini'' False False True (Some [git_server]) world0))
     = Inr [SecurityTool ''nmap_scan'', SecurityTool ''run_bandit'', DuckDuckGoTools,
            FileTools ''.'' True False,
            MultiMCPTools [''npx -y @modelcontextprotocol/server-git'']]
   \<and> map_sum id (agent_db \<circ> android_agent \<circ> agents)
     (fst (init env0 ''gpt-4o-mini'' False False False (Some [git_server]) world0)) = Inr None
   \<and> map_sum id (agent_db \<circ> android_agent \<circ> agents)
     (fst (init env0 ''gpt-4o-mini'' False False True (Some [git_server]) world0)) = Inr None"
proof -
  obtain sys w' where
    i: "init env0 ''gpt-4o-mini'' False False False (Some [git_server]) world0 = (Inr sys, w')"
    using init_no_stores by blast
  obtain sys2 w2 where
    i2: "init env0 ''gpt-4o-mini'' False False True (Some [git_server]) world0 = (Inr sys2, w2)"
    using init_no_stores by blast
  have b: "bridge_raises env0 [git_server] = None"
    "bridge_of [git_server] = [MultiMCPTools [''npx -y @modelcontextprotocol/server-git'']]"
    "url_servers_of [git_server] = []"
    "SECURITY_TOOLS env0 = [SecurityTool ''nmap_scan'', SecurityTool ''run_bandit'']"
    by (simp_all add: bridge_raises_def bridge_of_def commands_of_def url_servers_of_def
          is_url_based_def List.map_filter_simps env0_def git_server_def)
  have t: "all_tools sys = [SecurityTool ''nmap_scan'', SecurityTool ''run_bandit'',
      DuckDuckGoTools, FileTools ''.'' True False]"
    using init_Inr(6-8) [OF i] b by (simp add: initialize_tools_eq)
  have t2: "all_tools sys2 = [SecurityTool ''nmap_scan'', SecurityTool ''run_bandit'',
      DuckDuckGoTools, FileTools ''.'' True False,
      MultiMCPTools [''npx -y @modelcontextprotocol/server-git'']]"
    using init_Inr(6-8) [OF i2] b by (simp add: initialize_tools_eq attached_Nil)
  have d: "storage_db sys = None" "memory_db sys = None"
    "storage_db sys2 = None" "memory_db sys2 = None"
    using open_if_Inr [OF init_Inr(10) [OF i]] open_if_Inr [OF init_Inr(11) [OF i]]
      open_if_Inr [OF init_Inr(10) [OF i2]] open_if_Inr [OF init_Inr(11) [OF i2]]
    by simp_all
  have "agent_tools (android_agent (agents sys)) = all_tools sys"
    "agent_tools (android_agent (agents sys2)) = all_tools sys2"
    "agent_db (android_agent (agents sys)) = None"
    "agent_db (android_agent (agents sys2)) = None"
    unfolding init_Inr(12) [OF i] init_Inr(12) [OF i2] d
    by (simp_all add: create_all_agents_def Agent_def make_agent_kwargs_def Let_def)
  with t t2 show ?thesis
    by (simp add: i i2)
qed

subsection \<open>C8: the order of the capability list\<close>

text \<open>
  C8. The capability list is the built-in capabilities (\<^verbatim>\<open>SECURITY_TOOLS\<close>, then the base
  tools) followed by external ones, and the external ones are always taken, in order, from
  this list: the one bridge over all commands (when external providers are enabled and a
  spec is command-based), then one capability per URL-based spec in input order. When
  no attachment raises, they are that whole list.
\<close>

theorem capability_order:
  "(\<exists>rest. fst (initialize_tools e base use_mcp' servers w) = SECURITY_TOOLS e @ base @ rest
          \<and> subseq rest (if use_mcp' then external_capabilities servers else []))
   \<and> (bridge_raises e servers = None
        \<and> list_all (\<lambda>s. \<not> isl (new_MCPTools e s)) (url_servers_of servers) \<longrightarrow>
      fst (initialize_tools e base use_mcp' servers w)
        = SECURITY_TOOLS e @ base @ (if use_mcp' then external_capabilities servers else []))"
proof (intro conjI impI)
  show "\<exists>rest. fst (initialize_tools e base use_mcp' servers w) = SECURITY_TOOLS e @ base @ rest
          \<and> subseq rest (if use_mcp' then external_capabilities servers else [])"
  proof (cases "use_mcp' \<and> bridge_raises e servers = None")
    case True
    have "subseq (bridge_of servers @ attached e (url_servers_of servers))
            (external_capabilities servers)"
      unfolding external_capabilities_def
      by (intro list_emb_append_mono subseq_order.order_refl attached_subseq)
    with True show ?thesis
      by (simp add: initialize_tools_eq)
  next
    case False
    then show ?thesis
      by (auto simp: initialize_tools_eq split: option.splits)
  qed
next
  assume "bridge_raises e servers = None
    \<and> list_all (\<lambda>s. \<not> isl (new_MCPTools e s)) (url_servers_of servers)"
  then show "fst (initialize_tools e base use_mcp' servers w)
        = SECURITY_TOOLS e @ base @ (if use_mcp' then external_capabilities servers else [])"
    by (simp add: initialize_tools_eq attached_all external_capabilities_def)
qed

text \<open>The theorem at a command and a reachable endpoint: four built-ins, the bridge, the endpoint.\<close>

theorem capability_order_witness:
  "bridge_raises env0 [git_server, docs_server] = None
   \<and> list_all (\<lambda>s. \<not> isl (new_MCPTools env0 s)) (url_servers_of [git_server, docs_server])
   \<and> fst (initialize_tools env0 [DuckDuckGoTools, FileTools ''.'' True False] True
           [git_server, docs_server] world0)
       = [SecurityTool ''nmap_scan'', SecurityTool ''run_bandit'', DuckDuckGoTools,
          FileTools ''.'' True False,
          MultiMCPTools [''npx -y @modelcontextprotocol/server-git''],
          MCPTools ''https://docs.agno.com/mcp'' ''streamable-http'']"
proof -
  have h1: "bridge_raises env0 [git_server, docs_server] = None"
    by (simp add: bridge_raises_def commands_of_def List.map_filter_simps env0_def
          git_server_def docs_server_def)
  have h2: "list_all (\<lambda>s. \<not> isl (new_MCPTools env0 s)) (url_servers_of [git_server, docs_server])"
    by (simp add: url_servers_of_def is_url_based_def new_MCPTools_def dict_get_def env0_def
          git_server_def docs_server_def)
  have h3: "external_capabilities [git_server, docs_server]
      = [MultiMCPTools [''npx -y @modelcontextprotocol/server-git''],
         MCPTools ''https://docs.agno.com/mcp'' ''streamable-http'']"
    by (simp add: external_capabilities_def bridge_of_def commands_of_def url_capability_def
          url_servers_of_def is_url_based_def dict_get_def List.map_filter_simps
          git_server_def docs_server_def)
  have h4: "SECURITY_TOOLS env0 = [SecurityTool ''nmap_scan'', SecurityTool ''run_bandit'']"
    by (simp add: env0_def)
  show ?thesis
    using capability_order [of env0 "[DuckDuckGoTools, FileTools ''.'' True False]" True
        "[git_server, docs_server]" world0] h1 h2 h3 h4
    by simp
qed

subsection \<open>C9: a toggle whose rebuild fails\<close>

text \<open>
  C9. For each of \<^verbatim>\<open>/memory\<close>, \<^verbatim>\<open>/storage\<close> and \<^verbatim>\<open>/mcp\<close>: when the constructor call made with
  the flipped flag raises, the variables of the shell after the command are what they were
  before it, the flag and the active system among them.
\<close>

theorem failed_toggle_is_rolled_back:
  "(fst (rebuild e (st\<lparr>memory_enabled := \<not> memory_enabled st\<rparr>) w) = Inl ex \<longrightarrow>
      fst (main_memory e st w) = st)
   \<and> (fst (rebuild e (st\<lparr>storage_enabled := \<not> storage_enabled st\<rparr>) w) = Inl ex \<longrightarrow>
      fst (main_storage e st w) = st)
   \<and> (fst (rebuild e (st\<lparr>mcp_enabled := \<not> mcp_enabled st\<rparr>) w) = Inl ex \<longrightarrow>
      fst (main_mcp e st w) = st)"
  by (auto simp: main_memory_def main_storage_def main_mcp_def Let_def
        split: prod.splits sum.splits)

text \<open>
  The theorem at a shell started without stores, and at one started with memory, once no
  store can be opened: \<^verbatim>\<open>/memory\<close> and \<^verbatim>\<open>/storage\<close> on the first and \<^verbatim>\<open>/mcp\<close> on the second
  fail to rebuild and leave the variables as they were.
\<close>

theorem failed_toggle_is_rolled_back_witness:
  "\<exists>st w1 st2 w2.
     main_startup env0 ''gpt-4o-mini'' False False False world0 = (Inr st, w1)
     \<and> fst (rebuild env1 (st\<lparr>memory_enabled := True\<rparr>) w1)
         = Inl (Exception ''unable to open database file'')
     \<and> fst (main_memory env1 st w1) = st
     \<and> fst (rebuild env1 (st\<lparr>storage_enabled := True\<rparr>) w1)
         = Inl (Exception ''unable to open database file'')
     \<and> fst (main_storage env1 st w1) = st
     \<and> main_startup env0 ''gpt-4o-mini'' True False False world0 = (Inr st2, w2)
     \<and> fst (rebuild env1 (st2\<lparr>mcp_enabled := True\<rparr>) w2)
         = Inl (Exception ''unable to open database file'')
     \<and> fst (main_mcp env1 st2 w2) = st2"
proof -
  obtain sys w1 where i: "init env0 ''gpt-4o-mini'' False False False (Some []) world0 = (Inr sys, w1)"
    using init_no_stores by blast
  define st where "st = \<lparr>current_model = ''gpt-4o-mini'', memory_enabled = False,
    storage_enabled = False, mcp_enabled = False, cli_mcp_servers = [], agent_system = sys\<rparr>"
  have s: "main_startup env0 ''gpt-4o-mini'' False False False world0 = (Inr st, w1)"
    using i by (simp add: main_startup_def st_def)
  have "SqliteDb_raises env0 (CROSSBOW_DIR env0 @ ''/crossbow_agents.db'') = None"
    by (simp add: env0_def)
  then obtain sys2 w2 where
    i2: "init env0 ''gpt-4o-mini'' True False False (Some []) world0 = (Inr sys2, w2)"
    using init_returns [of False env0 True "''gpt-4o-mini''" False "Some []" world0] by blast
  define st2 where "st2 = \<lparr>current_model = ''gpt-4o-mini'', memory_enabled = True,
    storage_enabled = False, mcp_enabled = False, cli_mcp_servers = [], agent_system = sys2\<rparr>"
  have s2: "main_startup env0 ''gpt-4o-mini'' True False False world0 = (Inr st2, w2)"
    using i2 by (simp add: main_startup_def st2_def)
  have r: "SqliteDb_raises env1 (CROSSBOW_DIR env1 @ ''/agent_storage.db'')
             = Some (Exception ''unable to open database file'')"
    "SqliteDb_raises env1 (CROSSBOW_DIR env1 @ ''/crossbow_agents.db'')
             = Some (Exception ''unable to open database file'')"
    by (simp_all add: env1_def)
  have f1: "fst (rebuild env1 (st\<lparr>memory_enabled := True\<rparr>) w1)
         = Inl (Exception ''unable to open database file'')"
    unfolding rebuild_def using r by (intro init_raises) (simp add: st_def)
  have f2: "fst (rebuild env1 (st\<lparr>storage_enabled := True\<rparr>) w1)
         = Inl (Exception ''unable to open database file'')"
    unfolding rebuild_def using r by (intro init_raises) (simp add: st_def)
  have f3: "fst (rebuild env1 (st2\<lparr>mcp_enabled := True\<rparr>) w2)
         = Inl (Exception ''unable to open database file'')"
    unfolding rebuild_def using r by (intro init_raises) (simp add: st2_def)
  have m1: "memory_enabled st = False" "storage_enabled st = False" "mcp_enabled st2 = False"
    by (simp_all add: st_def st2_def)
  have "fst (main_memory env1 st w1) = st"
    using failed_toggle_is_rolled_back [of env1 st w1 "Exception ''unable to open database file''"]
      f1 m1 by simp
  moreover have "fst (main_storage env1 st w1) = st"
    using failed_toggle_is_rolled_back [of env1 st w1 "Exception ''unable to open database file''"]
      f2 m1 by simp
  moreover have "fst (main_mcp env1 st2 w2) = st2"
    using failed_toggle_is_rolled_back [of env1 st2 w2 "Exception ''unable to open database file''"]
      f3 m1 by simp
  ultimately show ?thesis
    using s s2 f1 f2 f3 by blast
qed

subsection \<open>C10: looking a specialist up\<close>

text \<open>
  C10. The table of \<^verbatim>\<open>get_agent\<close> has seventeen keys, all different; the function looks the
  lower-cased argument up in it and returns, for every argument: \<open>None\<close> when the
  lower-cased argument is not a key; the one specialist named Source Code Analyzer when
  it is \<^verbatim>\<open>source_code\<close> or \<^verbatim>\<open>sast\<close>.
\<close>

theorem get_agent_lookup:
  "map fst (agents_table sys)
     = [''android'', ''blue_team'', ''bug_bounty'', ''coding'', ''dfir'', ''email'', ''memory'',
        ''network'', ''red_team'', ''replay'', ''reporting'', ''triage'',
        ''reverse_engineering'', ''rf'', ''wifi'', ''source_code'', ''sast'']
   \<and> distinct (map fst (agents_table sys))
   \<and> length (agents_table sys) = 17
   \<and> get_agent e sys agent_type = map_of (agents_table sys) (str_lower e agent_type)
   \<and> (str_lower e agent_type \<notin> set (map fst (agents_table sys)) \<longrightarrow>
        get_agent e sys agent_type = None)
   \<and> (str_lower e agent_type = ''source_code'' \<or> str_lower e agent_type = ''sast'' \<longrightarrow>
        get_agent e sys agent_type = Some (source_code_analyzer_agent (agents sys)))
   \<and> agent_name (source_code_analyzer_agent (create_all_agents mdl tools sdb mdb))
       = ''Source Code Analyzer''"
proof (intro conjI impI)
  show "str_lower e agent_type \<notin> set (map fst (agents_table sys))
      \<Longrightarrow> get_agent e sys agent_type = None"
    unfolding get_agent_def by (simp add: map_of_eq_None_iff)
qed (auto simp: get_agent_def agents_table_def create_all_agents_def Agent_def Let_def)

text \<open>
  The theorem at \<^verbatim>\<open>"SAST"\<close>, which finds the Source Code Analyzer, and at \<^verbatim>\<open>"Nmap"\<close>, which
  finds nothing.
\<close>

theorem get_agent_lookup_witness:
  "str_lower env0 ''SAST'' = ''sast''
   \<and> (\<exists>sys w'. init env0 ''gpt-4o-mini'' False False False None world0 = (Inr sys, w')
        \<and> get_agent env0 sys ''SAST'' = Some (source_code_analyzer_agent (agents sys))
        \<and> agent_name (source_code_analyzer_agent (agents sys)) = ''Source Code Analyzer''
        \<and> str_lower env0 ''Nmap'' \<notin> set (map fst (agents_table sys))
        \<and> get_agent env0 sys ''Nmap'' = None)"
proof -
  have l: "str_lower env0 ''SAST'' = ''sast''" "str_lower env0 ''Nmap'' = ''nmap''"
    by (simp_all add: env0_def ascii_lower_def ascii_lower_char_def)
  obtain sys w' where i: "init env0 ''gpt-4o-mini'' False False False None world0 = (Inr sys, w')"
    using init_no_stores by blast
  have n: "str_lower env0 ''Nmap'' \<notin> set (map fst (agents_table sys))"
    using get_agent_lookup [of sys] l by simp
  have "get_agent env0 sys ''SAST'' = Some (source_code_analyzer_agent (agents sys))"
    using get_agent_lookup [of sys env0 "''SAST''"] l by blast
  moreover have "get_agent env0 sys ''Nmap'' = None"
    using get_agent_lookup [of sys env0 "''Nmap''"] n by blast
  moreover have "agent_name (source_code_analyzer_agent (agents sys)) = ''Source Code Analyzer''"
    using get_agent_lookup [of sys env0 "''SAST''" "model sys" "all_tools sys" "storage_db sys"
        "memory_db sys"] init_Inr(12) [OF i]
    by simp
  ultimately show ?thesis
    using l i n by blast
qed

end
